theory Spec2Isabelle
  imports Main "HOL-Library.Char_ord" "HOL-Library.List_Lexorder"
    "HOL-Library.Product_Lexorder" "HOL-Library.Multiset"
begin

section \<open>Strings\<close>

text \<open>
  A JavaScript string is modelled as a \<^typ>\<open>string\<close>, one \<^typ>\<open>char\<close> per code unit;
  the model covers the strings whose code units are below 256.
\<close>

definition is_hex_digit :: "char \<Rightarrow> bool" where
  "is_hex_digit c = (c \<in> set ''0123456789abcdefABCDEF'')"

text \<open>ASCII lower-casing, as hexadecimal parsing and caseless matching use it.\<close>

definition to_lower :: "char \<Rightarrow> char" where
  "to_lower c =
     (case map_of (zip ''ABCDEFGHIJKLMNOPQRSTUVWXYZ'' ''abcdefghijklmnopqrstuvwxyz'') c of
        Some l \<Rightarrow> l
      | None \<Rightarrow> c)"

text \<open>
  \<^verbatim>\<open>String.prototype.trim\<close>: the white space and line terminator code units below 256 are
  TAB, LF, VT, FF, CR, SPACE and NBSP.
\<close>

definition is_js_whitespace :: "char \<Rightarrow> bool" where
  "is_js_whitespace c =
     (c \<in> set [CHR 0x09, CHR 0x0A, CHR 0x0B, CHR 0x0C, CHR 0x0D, CHR 0x20, CHR 0xA0])"

definition trim :: "string \<Rightarrow> string" where
  "trim s = rev (dropWhile is_js_whitespace (rev (dropWhile is_js_whitespace s)))"

text \<open>\<^verbatim>\<open>s.split('/').pop()\<close>: the part of \<open>s\<close> after its last slash.\<close>

definition split_pop :: "string \<Rightarrow> string" where
  "split_pop s = rev (takeWhile (\<lambda>c. c \<noteq> CHR ''/'') (rev s))"

text \<open>
  \<^verbatim>\<open>encodeURIComponent\<close>: every code unit outside the unreserved set is written as the
  bytes of its UTF-8 form, each as a percent sign and two upper-case hexadecimal digits:
  one byte for a code unit below 128, two bytes for a code unit from 128 to 255.
\<close>

definition uri_unreserved :: "char \<Rightarrow> bool" where
  "uri_unreserved c =
     (c \<in> set ''ABCDEFGHIJKLMNOPQRSTUVWXYZabcdefghijklmnopqrstuvwxyz0123456789-_.!~*'' \<or>
      c = CHR 0x27 \<or> c = CHR ''('' \<or> c = CHR '')'')"

definition hex_digit :: "nat \<Rightarrow> char" where
  "hex_digit n = ''0123456789ABCDEF'' ! (n mod 16)"

definition percent :: "nat \<Rightarrow> string" where
  "percent n = [CHR ''%'', hex_digit (n div 16), hex_digit n]"

definition encodeURIComponent :: "string \<Rightarrow> string" where
  "encodeURIComponent s =
     concat (map (\<lambda>c. if uri_unreserved c then [c]
                       else if (of_char c :: nat) < 128 then percent (of_char c)
                       else percent (192 + of_char c div 64) @ percent (128 + of_char c mod 64))
               s)"

section \<open>Documents of the store\<close>

text \<open>
  The values a parcel document holds. A native locator (\<^verbatim>\<open>ObjectId\<close>) is kept as its 24
  lower-case hexadecimal digits, which is what \<^verbatim>\<open>toString()\<close> prints.
\<close>

datatype bson = BNull | BNum int | BStr string | BObjectId string | BBool bool | BDate int

text \<open>
  The locator field \<^verbatim>\<open>_id\<close> of a stored parcel is a native locator or, for records
  persisted as plain text, a string.
\<close>

datatype locator = NativeId string | TextId string

record parcel =
  parcel_id :: locator
  attrs :: "string \<rightharpoonup> bson"

fun locator_bson :: "locator \<Rightarrow> bson" where
  "locator_bson (NativeId h) = BObjectId h"
| "locator_bson (TextId s) = BStr s"

text \<open>\<^verbatim>\<open>parcel._id.toString()\<close>\<close>

fun locator_toString :: "locator \<Rightarrow> string" where
  "locator_toString (NativeId h) = h"
| "locator_toString (TextId s) = s"

definition field_of :: "parcel \<Rightarrow> string \<Rightarrow> bson option" where
  "field_of p k = (if k = ''_id'' then Some (locator_bson (parcel_id p)) else attrs p k)"

text \<open>
  Modelled from the spec: \<^verbatim>\<open>ObjectId.isValid\<close> belongs to the store's driver, which is not
  among the sources; the specification gives the locator format as a fixed length and
  character set, 24 hexadecimal digits. \<^verbatim>\<open>new ObjectId(s)\<close> reads the digits caselessly.
\<close>

definition ObjectId_isValid :: "string \<Rightarrow> bool" where
  "ObjectId_isValid s = (length s = 24 \<and> list_all is_hex_digit s)"

definition new_ObjectId :: "string \<Rightarrow> bson" where
  "new_ObjectId s = BObjectId (map to_lower s)"

section \<open>Queries of the store\<close>

text \<open>
  The filter documents the handlers build: \<^verbatim>\<open>{}\<close>, \<^verbatim>\<open>{$or: [...]}\<close>,
  \<^verbatim>\<open>{field: {$regex: pattern, $options: opts}}\<close> and \<^verbatim>\<open>{field: value}\<close>.
\<close>

datatype filter =
    MatchAll
  | Or "filter list"
  | FieldRegex string string string
  | FieldEq string bson

text \<open>
  The store's regular-expression search is outside the repository: it is a parameter,
  taking the pattern, the options and the subject string.
\<close>

type_synonym regex_engine = "string \<Rightarrow> string \<Rightarrow> string \<Rightarrow> bool"

fun matches :: "regex_engine \<Rightarrow> filter \<Rightarrow> parcel \<Rightarrow> bool" where
  "matches rx MatchAll p = True"
| "matches rx (Or fs) p = list_ex (\<lambda>f. matches rx f p) fs"
| "matches rx (FieldRegex k pat opts) p =
     (case field_of p k of Some (BStr v) \<Rightarrow> rx pat opts v | _ \<Rightarrow> False)"
| "matches rx (FieldEq k v) p = (field_of p k = Some v)"

text \<open>
  The store compares values of different types by type first (null, numbers, strings,
  native locators, booleans, dates, in this order), then by value; strings and locators
  compare code unit by code unit. A field a document lacks sorts as null.
\<close>

fun bson_key :: "bson \<Rightarrow> nat \<times> int \<times> string" where
  "bson_key BNull = (2, 0, [])"
| "bson_key (BNum n) = (3, n, [])"
| "bson_key (BStr s) = (4, 0, s)"
| "bson_key (BObjectId h) = (8, 0, h)"
| "bson_key (BBool b) = (9, if b then 1 else 0, [])"
| "bson_key (BDate d) = (10, d, [])"

definition sort_value :: "parcel \<Rightarrow> string \<Rightarrow> nat \<times> int \<times> string" where
  "sort_value p k = bson_key (case field_of p k of Some v \<Rightarrow> v | None \<Rightarrow> BNull)"

text \<open>
  A sort document lists fields with a direction, \<open>1\<close> ascending and \<open>-1\<close> descending;
  the store orders by the first field and breaks ties by the following ones.
\<close>

type_synonym sort_spec = "(string \<times> int) list"

fun comes_before :: "sort_spec \<Rightarrow> parcel \<Rightarrow> parcel \<Rightarrow> bool" where
  "comes_before [] a b = True"
| "comes_before ((k, dir) # ks) a b =
     (if sort_value a k = sort_value b k then comes_before ks a b
      else if dir < 0 then sort_value b k < sort_value a k
      else sort_value a k < sort_value b k)"

fun insert_sorted :: "sort_spec \<Rightarrow> parcel \<Rightarrow> parcel list \<Rightarrow> parcel list" where
  "insert_sorted spec x [] = [x]"
| "insert_sorted spec x (y # ys) =
     (if comes_before spec x y then x # y # ys else y # insert_sorted spec x ys)"

definition sort_docs :: "sort_spec \<Rightarrow> parcel list \<Rightarrow> parcel list" where
  "sort_docs spec ps = foldr (insert_sorted spec) ps []"

text \<open>\<^verbatim>\<open>deleteOne\<close> removes the first document the filter matches and counts it.\<close>

fun delete_first :: "(parcel \<Rightarrow> bool) \<Rightarrow> parcel list \<Rightarrow> nat \<times> parcel list" where
  "delete_first P [] = (0, [])"
| "delete_first P (x # xs) =
     (if P x then (1, xs) else (fst (delete_first P xs), x # snd (delete_first P xs)))"

section \<open>The world outside the process\<close>

datatype js_error = Error string

text \<open>
  What a request finds outside the process: the environment variables, whether the
  liveness probe and the connect throw (and with which message), whether the \<open>k\<close>-th
  call on the collection throws (a network failure, or the store rejecting the call),
  the store's regular-expression search, and the locator the driver generates for an
  inserted document.
\<close>

record world =
  DB_USER :: "string option"
  DB_PASSWORD :: "string option"
  ping_error :: "string option"
  connect_error :: "string option"
  store_error :: "nat \<Rightarrow> string option"
  regex :: regex_engine
  generated_id :: string
  duplicate_key_message :: string

text \<open>\<^verbatim>\<open>!process.env.X\<close>: the variable is unset or empty.\<close>

definition env_missing :: "string option \<Rightarrow> bool" where
  "env_missing v = (v = None \<or> v = Some [])"

section \<open>The serverless variant: connection cache\<close>

datatype client = MongoClient nat string

datatype db = Db client string

datatype collection = Collection db string

text \<open>
  The three module-level slots, the number of \<^verbatim>\<open>client.connect()\<close> calls and of
  liveness probes made so far, and the documents of the remote collection. A client
  object is identified by the number of connects made before it was constructed.
\<close>

record server =
  cachedClient :: "client option"
  cachedDb :: "db option"
  cachedCollection :: "collection option"
  connects :: nat
  pings :: nat
  parcels :: "parcel list"

definition mongo_uri :: "string \<Rightarrow> string \<Rightarrow> string" where
  "mongo_uri username password =
     ''mongodb+srv://'' @ username @ '':'' @ password @
     ''@cluster0.a9td6ie.mongodb.net/?appName=Cluster0''"

text \<open>The second \<^verbatim>\<open>try\<close> block of \<^verbatim>\<open>connectToDatabase\<close>: open a connection and cache it.\<close>

definition open_connection ::
  "world \<Rightarrow> server \<Rightarrow> (js_error + client \<times> db \<times> collection) \<times> server" where
  "open_connection w s =
     (if env_missing (DB_USER w) \<or> env_missing (DB_PASSWORD w) then
        (Inl (Error ''DB_USER and DB_PASSWORD environment variables are required''), s)
      else
        let username = encodeURIComponent (the (DB_USER w));
            password = encodeURIComponent (the (DB_PASSWORD w));
            cl = MongoClient (connects s) (mongo_uri username password);
            s1 = s\<lparr>connects := connects s + 1\<rparr>
        in case connect_error w of
             Some m \<Rightarrow> (Inl (Error m), s1)
           | None \<Rightarrow>
               let d = Db cl ''parcelDB'';
                   col = Collection d ''parcels''
               in (Inr (cl, d, col),
                   s1\<lparr>cachedClient := Some cl, cachedDb := Some d,
                      cachedCollection := Some col\<rparr>))"

definition connectToDatabase ::
  "world \<Rightarrow> server \<Rightarrow> (js_error + client \<times> db \<times> collection) \<times> server" where
  "connectToDatabase w s =
     (if cachedClient s \<noteq> None \<and> cachedDb s \<noteq> None \<and> cachedCollection s \<noteq> None then
        (case ping_error w of
           None \<Rightarrow>
             (Inr (the (cachedClient s), the (cachedDb s), the (cachedCollection s)),
              s\<lparr>pings := pings s + 1\<rparr>)
         | Some m \<Rightarrow>
             open_connection w
               (s\<lparr>pings := pings s + 1, cachedClient := None, cachedDb := None,
                  cachedCollection := None\<rparr>))
      else open_connection w s)"

section \<open>Calls on the collection\<close>

text \<open>
  Each call takes its position \<open>k\<close> among the collection calls of the request, which
  decides whether it throws. \<^verbatim>\<open>find(query).sort(spec).toArray()\<close> is one call.
\<close>

definition find_sorted ::
  "world \<Rightarrow> nat \<Rightarrow> filter \<Rightarrow> sort_spec \<Rightarrow> parcel list \<Rightarrow> js_error + parcel list" where
  "find_sorted w k q spec docs =
     (case store_error w k of
        Some m \<Rightarrow> Inl (Error m)
      | None \<Rightarrow> Inr (sort_docs spec (filter (matches (regex w) q) docs)))"

definition findOne ::
  "world \<Rightarrow> nat \<Rightarrow> filter \<Rightarrow> parcel list \<Rightarrow> js_error + parcel option" where
  "findOne w k q docs =
     (case store_error w k of
        Some m \<Rightarrow> Inl (Error m)
      | None \<Rightarrow> Inr (find (matches (regex w) q) docs))"

text \<open>The result is the thrown error or \<^verbatim>\<open>deletedCount\<close>, with the documents left.\<close>

definition deleteOne ::
  "world \<Rightarrow> nat \<Rightarrow> filter \<Rightarrow> parcel list \<Rightarrow> (js_error + nat) \<times> parcel list" where
  "deleteOne w k q docs =
     (case store_error w k of
        Some m \<Rightarrow> (Inl (Error m), docs)
      | None \<Rightarrow>
          (Inr (fst (delete_first (matches (regex w) q) docs)),
           snd (delete_first (matches (regex w) q) docs)))"

text \<open>
  \<^verbatim>\<open>insertOne\<close>: a document without a locator gets the generated one; a locator already
  in the collection is a duplicate key error. The result is \<^verbatim>\<open>insertedId\<close>.
\<close>

definition insertOne ::
  "world \<Rightarrow> nat \<Rightarrow> locator option \<Rightarrow> (string \<rightharpoonup> bson) \<Rightarrow> parcel list \<Rightarrow>
     (js_error + locator) \<times> parcel list" where
  "insertOne w k given a docs =
     (case store_error w k of
        Some m \<Rightarrow> (Inl (Error m), docs)
      | None \<Rightarrow>
          let l = (case given of Some l \<Rightarrow> l | None \<Rightarrow> NativeId (generated_id w))
          in if l \<in> set (map parcel_id docs) then (Inl (Error (duplicate_key_message w)), docs)
             else (Inr l, docs @ [\<lparr>parcel_id = l, attrs = a\<rparr>]))"

section \<open>Responses\<close>

datatype jv = JString string | JNumber int | JBoolean bool | JNull | JUndefined

datatype body =
    Json "(string \<times> jv) list"
  | JsonDoc "string \<rightharpoonup> bson"
  | JsonDocs "(string \<rightharpoonup> bson) list"

record response =
  status :: nat
  headers :: "(string \<times> string) list"
  body :: body

text \<open>\<^verbatim>\<open>{...parcel, _id: parcel._id.toString(), id: parcel._id.toString()}\<close>\<close>

definition serialise :: "parcel \<Rightarrow> (string \<rightharpoonup> bson)" where
  "serialise p =
     (attrs p)(''_id'' \<mapsto> BStr (locator_toString (parcel_id p)),
               ''id'' \<mapsto> BStr (locator_toString (parcel_id p)))"

definition failure :: "string \<Rightarrow> (string \<times> string) list \<Rightarrow> string \<Rightarrow> response" where
  "failure what hs m =
     \<lparr>status = 500, headers = hs,
      body = Json [(''error'', JString what), (''message'', JString m)]\<rparr>"

definition cors_any :: "(string \<times> string) list" where
  "cors_any = [(''Access-Control-Allow-Origin'', ''*'')]"

definition json_type :: "(string \<times> string) list" where
  "json_type = [(''Content-Type'', ''application/json'')]"

section \<open>The serverless variant: listing\<close>

text \<open>The filter \<^verbatim>\<open>GET /parcels\<close> builds from \<^verbatim>\<open>req.query.email\<close>.\<close>

definition alias_fields :: "string list" where
  "alias_fields = [''email'', ''userEmail'', ''senderEmail'', ''recipientEmail'', ''creatorEmail'']"

definition email_or :: "string \<Rightarrow> filter" where
  "email_or email =
     Or [FieldRegex ''email'' email ''i'',
         FieldRegex ''userEmail'' email ''i'',
         FieldRegex ''senderEmail'' email ''i'',
         FieldRegex ''recipientEmail'' email ''i'',
         FieldRegex ''creatorEmail'' email ''i'']"

definition buildEmailFilter :: "string option \<Rightarrow> filter" where
  "buildEmailFilter email =
     (case email of
        None \<Rightarrow> MatchAll
      | Some t \<Rightarrow> if t \<noteq> [] then email_or t else MatchAll)"

definition defaultSort :: sort_spec where
  "defaultSort = [(''createdAt'', -1), (''date'', -1), (''timestamp'', -1), (''_id'', -1)]"

definition get_parcels :: "world \<Rightarrow> server \<Rightarrow> string option \<Rightarrow> response \<times> server" where
  "get_parcels w s email =
     (case connectToDatabase w s of
        (Inl (Error m), s1) \<Rightarrow> (failure ''Failed to fetch parcels'' [] m, s1)
      | (Inr conn, s1) \<Rightarrow>
          (case find_sorted w 0 (buildEmailFilter email) defaultSort (parcels s1) of
             Inl (Error m) \<Rightarrow> (failure ''Failed to fetch parcels'' [] m, s1)
           | Inr ps \<Rightarrow>
               (\<lparr>status = 200, headers = json_type @ cors_any,
                 body = JsonDocs (map serialise ps)\<rparr>, s1)))"

text \<open>\<^verbatim>\<open>GET /parcels/user/:email\<close>\<close>

definition get_parcels_user :: "world \<Rightarrow> server \<Rightarrow> string \<Rightarrow> response \<times> server" where
  "get_parcels_user w s email =
     (case connectToDatabase w s of
        (Inl (Error m), s1) \<Rightarrow> (failure ''Failed to fetch parcels'' [] m, s1)
      | (Inr conn, s1) \<Rightarrow>
          (case find_sorted w 0 (email_or email) defaultSort (parcels s1) of
             Inl (Error m) \<Rightarrow> (failure ''Failed to fetch parcels'' [] m, s1)
           | Inr ps \<Rightarrow>
               (\<lparr>status = 200, headers = json_type, body = JsonDocs (map serialise ps)\<rparr>, s1)))"

section \<open>The serverless variant: one parcel\<close>

text \<open>\<^verbatim>\<open>GET /parcels/:id\<close>\<close>

definition get_parcels_id :: "world \<Rightarrow> server \<Rightarrow> string \<Rightarrow> response \<times> server" where
  "get_parcels_id w s parcelId =
     (case connectToDatabase w s of
        (Inl (Error m), s1) \<Rightarrow> (failure ''Failed to fetch parcel'' [] m, s1)
      | (Inr conn, s1) \<Rightarrow>
          if \<not> ObjectId_isValid parcelId then
            (\<lparr>status = 400, headers = [],
              body = Json [(''error'', JString ''Invalid parcel ID format''),
                           (''receivedId'', JString parcelId)]\<rparr>, s1)
          else
            (case findOne w 0 (FieldEq ''_id'' (new_ObjectId parcelId)) (parcels s1) of
               Inl (Error m) \<Rightarrow> (failure ''Failed to fetch parcel'' [] m, s1)
             | Inr None \<Rightarrow>
                 (\<lparr>status = 404, headers = [],
                   body = Json [(''error'', JString ''Parcel not found''),
                                (''parcelId'', JString parcelId)]\<rparr>, s1)
             | Inr (Some p) \<Rightarrow>
                 (\<lparr>status = 200, headers = json_type, body = JsonDoc (serialise p)\<rparr>, s1)))"

text \<open>
  \<^verbatim>\<open>POST /parcels\<close>: the body is a JSON object, so a locator it carries is a string.
\<close>

definition post_parcels ::
  "world \<Rightarrow> server \<Rightarrow> string option \<Rightarrow> (string \<rightharpoonup> bson) \<Rightarrow> response \<times> server" where
  "post_parcels w s given a =
     (case connectToDatabase w s of
        (Inl (Error m), s1) \<Rightarrow> (failure ''Failed to insert parcel'' [] m, s1)
      | (Inr conn, s1) \<Rightarrow>
          (case insertOne w 0 (map_option TextId given) a (parcels s1) of
             (Inl (Error m), docs) \<Rightarrow>
               (failure ''Failed to insert parcel'' [] m, s1\<lparr>parcels := docs\<rparr>)
           | (Inr l, docs) \<Rightarrow>
               (\<lparr>status = 201, headers = json_type @ cors_any,
                 body = Json [(''insertedId'', JString (locator_toString l)),
                              (''acknowledged'', JBoolean True)]\<rparr>,
                s1\<lparr>parcels := docs\<rparr>)))"

section \<open>The serverless variant: deleting\<close>

text \<open>
  The three \<^verbatim>\<open>deleteOne\<close> calls both delete handlers make for a validated identifier:
  by native locator, then by the string in the locator field, then by the \<^verbatim>\<open>id\<close> field;
  a call is made only when the ones before it deleted nothing.
\<close>

definition delete_strategies ::
  "world \<Rightarrow> string \<Rightarrow> parcel list \<Rightarrow> (js_error + nat) \<times> parcel list" where
  "delete_strategies w parcelId docs =
     (case deleteOne w 0 (FieldEq ''_id'' (new_ObjectId parcelId)) docs of
        (Inl e, d1) \<Rightarrow> (Inl e, d1)
      | (Inr n1, d1) \<Rightarrow>
          if n1 \<noteq> 0 then (Inr n1, d1)
          else
            (case deleteOne w 1 (FieldEq ''_id'' (BStr parcelId)) d1 of
               (Inl e, d2) \<Rightarrow> (Inl e, d2)
             | (Inr n2, d2) \<Rightarrow>
                 if n2 \<noteq> 0 then (Inr n2, d2)
                 else deleteOne w 2 (FieldEq ''id'' (BStr parcelId)) d2))"

text \<open>
  A delete request by path: \<^verbatim>\<open>req.params.id\<close> and \<^verbatim>\<open>req.path\<close>, each a string or
  undefined.
\<close>

record request =
  params_id :: "string option"
  path :: "string option"

text \<open>\<^verbatim>\<open>(req.params && req.params.id) || (req.path && req.path.split('/').pop())\<close>\<close>

definition raw_parcelId :: "request \<Rightarrow> string option" where
  "raw_parcelId req =
     (if params_id req \<noteq> None \<and> params_id req \<noteq> Some [] then params_id req
      else map_option split_pop (path req))"

definition invalid_id :: "(string \<times> string) list \<Rightarrow> jv \<Rightarrow> response" where
  "invalid_id hs received =
     \<lparr>status = 400, headers = hs,
      body = Json [(''error'', JString ''Invalid parcel ID format''), (''receivedId'', received)]\<rparr>"

definition deleted :: "string \<Rightarrow> nat \<Rightarrow> response" where
  "deleted parcelId n =
     \<lparr>status = 200, headers = json_type @ cors_any,
      body = Json [(''message'', JString ''Parcel deleted successfully''),
                   (''deletedId'', JString parcelId),
                   (''deletedCount'', JNumber (int n))]\<rparr>"

definition delete_hint :: string where
  "delete_hint =
     ''Parcel may have been deleted already, or ID is incorrect. Use GET /parcels to list parcels.''"

text \<open>A thrown error leaves the handler as \<open>Inl\<close>; the route catches it.\<close>

definition handleDeleteParcelById ::
  "world \<Rightarrow> server \<Rightarrow> request \<Rightarrow> (js_error + response) \<times> server" where
  "handleDeleteParcelById w s req =
     (case connectToDatabase w s of
        (Inl e, s1) \<Rightarrow> (Inl e, s1)
      | (Inr conn, s1) \<Rightarrow>
          let parcelId = map_option trim (raw_parcelId req)
          in if parcelId = None then (Inr (invalid_id cors_any JUndefined), s1)
             else if the parcelId = [] \<or> \<not> ObjectId_isValid (the parcelId) then
               (Inr (invalid_id cors_any (JString (the parcelId))), s1)
             else
               (case delete_strategies w (the parcelId) (parcels s1) of
                  (Inl e, docs) \<Rightarrow> (Inl e, s1\<lparr>parcels := docs\<rparr>)
                | (Inr n, docs) \<Rightarrow>
                    if n = 0 then
                      (Inr \<lparr>status = 404, headers = json_type @ cors_any,
                            body = Json [(''error'', JString ''Parcel not found''),
                                         (''parcelId'', JString (the parcelId)),
                                         (''hint'', JString delete_hint)]\<rparr>,
                       s1\<lparr>parcels := docs\<rparr>)
                    else (Inr (deleted (the parcelId) n), s1\<lparr>parcels := docs\<rparr>)))"

text \<open>\<^verbatim>\<open>DELETE /parcels/:id\<close> and \<^verbatim>\<open>DELETE /api/parcels/:id\<close>\<close>

definition delete_parcels_id :: "world \<Rightarrow> server \<Rightarrow> request \<Rightarrow> response \<times> server" where
  "delete_parcels_id w s req =
     (case handleDeleteParcelById w s req of
        (Inl (Error m), s1) \<Rightarrow> (failure ''Failed to delete parcel'' cors_any m, s1)
      | (Inr r, s1) \<Rightarrow> (r, s1))"

definition delete_api_parcels_id :: "world \<Rightarrow> server \<Rightarrow> request \<Rightarrow> response \<times> server" where
  "delete_api_parcels_id w s req =
     (case handleDeleteParcelById w s req of
        (Inl (Error m), s1) \<Rightarrow> (failure ''Failed to delete parcel'' cors_any m, s1)
      | (Inr r, s1) \<Rightarrow> (r, s1))"

text \<open>
  \<^verbatim>\<open>DELETE /parcels\<close>: the identifier is \<^verbatim>\<open>req.body.id || req.body._id || req.query.id\<close>,
  each a string or undefined.
\<close>

record body_request =
  body_id :: "string option"
  body_locator :: "string option"
  query_id :: "string option"

definition js_or :: "string option \<Rightarrow> string option \<Rightarrow> string option" where
  "js_or a b = (if a \<noteq> None \<and> a \<noteq> Some [] then a else b)"

definition delete_parcels :: "world \<Rightarrow> server \<Rightarrow> body_request \<Rightarrow> response \<times> server" where
  "delete_parcels w s req =
     (case connectToDatabase w s of
        (Inl (Error m), s1) \<Rightarrow> (failure ''Failed to delete parcel'' cors_any m, s1)
      | (Inr conn, s1) \<Rightarrow>
          let parcelId = js_or (js_or (body_id req) (body_locator req)) (query_id req)
          in if parcelId = None \<or> parcelId = Some [] then
               (\<lparr>status = 400, headers = cors_any,
                 body = Json [(''error'', JString ''Parcel ID is required''),
                              (''hint'', JString
                                 ''Provide id in request body or use DELETE /parcels/:id'')]\<rparr>,
                s1)
             else if \<not> ObjectId_isValid (the parcelId) then
               (invalid_id cors_any (JString (the parcelId)), s1)
             else
               (case delete_strategies w (the parcelId) (parcels s1) of
                  (Inl (Error m), docs) \<Rightarrow>
                    (failure ''Failed to delete parcel'' cors_any m, s1\<lparr>parcels := docs\<rparr>)
                | (Inr n, docs) \<Rightarrow>
                    if n = 0 then
                      (\<lparr>status = 404, headers = json_type @ cors_any,
                        body = Json [(''error'', JString ''Parcel not found''),
                                     (''parcelId'', JString (the parcelId))]\<rparr>,
                       s1\<lparr>parcels := docs\<rparr>)
                    else (deleted (the parcelId) n, s1\<lparr>parcels := docs\<rparr>)))"

section \<open>The serverless variant: health\<close>

text \<open>\<^verbatim>\<open>GET /health\<close>; \<open>now\<close> is \<^verbatim>\<open>new Date().toISOString()\<close>.\<close>

definition health_body :: "string \<Rightarrow> bool \<Rightarrow> jv \<Rightarrow> string \<Rightarrow> response" where
  "health_body dbStatus hasEnvVars dbError now =
     \<lparr>status = 200, headers = [],
      body = Json [(''status'', JString ''ok''), (''database'', JString dbStatus),
                   (''hasEnvVars'', JBoolean hasEnvVars), (''error'', dbError),
                   (''timestamp'', JString now)]\<rparr>"

definition health :: "world \<Rightarrow> server \<Rightarrow> string \<Rightarrow> response \<times> server" where
  "health w s now =
     (let hasEnvVars = (\<not> env_missing (DB_USER w) \<and> \<not> env_missing (DB_PASSWORD w))
      in if hasEnvVars then
           (case connectToDatabase w s of
              (Inl (Error m), s1) \<Rightarrow> (health_body ''error'' hasEnvVars (JString m) now, s1)
            | (Inr conn, s1) \<Rightarrow>
                (case findOne w 0 MatchAll (parcels s1) of
                   Inl (Error m) \<Rightarrow> (health_body ''error'' hasEnvVars (JString m) now, s1)
                 | Inr found \<Rightarrow> (health_body ''connected'' hasEnvVars JNull now, s1)))
         else
           (health_body ''disconnected'' hasEnvVars
              (JString ''DB_USER or DB_PASSWORD environment variables not set'') now, s))"

section \<open>The standalone variant\<close>

text \<open>
  The standalone server builds its client when the module loads, from
  \<^verbatim>\<open>process.env.DB_USER || ''\<close> and the password likewise, and connects once, at start.
  The driver refuses a connection string whose user information is empty, the text after
  the protocol starting with a colon or an at sign: \<^verbatim>\<open>new MongoClient(uri)\<close> then throws,
  the module does not load and the server never listens.
\<close>

record standalone =
  client :: client
  db :: "db option"
  parcelsCollection :: "collection option"
  stored :: "parcel list"

definition env_or_empty :: "string option \<Rightarrow> string" where
  "env_or_empty v = (case v of None \<Rightarrow> [] | Some x \<Rightarrow> x)"

definition userinfo_empty :: "string \<Rightarrow> bool" where
  "userinfo_empty uri =
     (case drop (length ''mongodb+srv://'') uri of
        [] \<Rightarrow> False
      | c # cs \<Rightarrow> c = CHR '':'' \<or> c = CHR ''@'')"

text \<open>
  Loading the module, with the documents the remote collection holds: \<open>None\<close> when the
  client cannot be built.
\<close>

definition load :: "world \<Rightarrow> parcel list \<Rightarrow> standalone option" where
  "load w docs =
     (let username = encodeURIComponent (env_or_empty (DB_USER w));
          password = encodeURIComponent (env_or_empty (DB_PASSWORD w));
          uri = mongo_uri username password
      in if userinfo_empty uri then None
         else Some \<lparr>client = MongoClient 0 uri, db = None, parcelsCollection = None,
                     stored = docs\<rparr>)"

text \<open>
  \<^verbatim>\<open>run()\<close> sets \<^verbatim>\<open>db\<close> and \<^verbatim>\<open>parcelsCollection\<close> when the credentials are there and the
  connect succeeds, and swallows every error; the probe it ends with changes nothing.
\<close>

definition run :: "world \<Rightarrow> standalone \<Rightarrow> standalone" where
  "run w s =
     (if env_missing (DB_USER w) \<or> env_missing (DB_PASSWORD w) then s
      else
        (case connect_error w of
           Some m \<Rightarrow> s
         | None \<Rightarrow>
             let d = Db (client s) ''parcelDB''
             in s\<lparr>db := Some d, parcelsCollection := Some (Collection d ''parcels'')\<rparr>))"

text \<open>The server once it listens: the module has loaded and \<^verbatim>\<open>run()\<close> has been started.\<close>

definition start :: "world \<Rightarrow> parcel list \<Rightarrow> standalone option" where
  "start w docs = map_option (run w) (load w docs)"

definition not_connected :: response where
  "not_connected =
     \<lparr>status = 503, headers = [], body = Json [(''error'', JString ''Database not connected'')]\<rparr>"

definition standalone_filter :: "string option \<Rightarrow> filter" where
  "standalone_filter email =
     (case email of
        None \<Rightarrow> MatchAll
      | Some t \<Rightarrow>
          if t \<noteq> [] then
            Or [FieldRegex ''email'' t ''i'',
                FieldRegex ''userEmail'' t ''i'',
                FieldRegex ''senderEmail'' t ''i'',
                FieldRegex ''recipientEmail'' t ''i'']
          else MatchAll)"

definition standalone_get_parcels ::
  "world \<Rightarrow> standalone \<Rightarrow> string option \<Rightarrow> response \<times> standalone" where
  "standalone_get_parcels w s email =
     (if parcelsCollection s = None then (not_connected, s)
      else
        (case find_sorted w 0 (standalone_filter email) defaultSort (stored s) of
           Inl (Error m) \<Rightarrow> (failure ''Failed to fetch parcels'' [] m, s)
         | Inr ps \<Rightarrow>
             (\<lparr>status = 200, headers = json_type @ cors_any,
               body = JsonDocs (map serialise ps)\<rparr>, s)))"

section \<open>Notions the properties are stated with\<close>

subsection \<open>The connection cache\<close>

text \<open>The handle the cache holds: all three slots are set.\<close>

definition cached :: "server \<Rightarrow> (client \<times> db \<times> collection) option" where
  "cached s =
     (if cachedClient s \<noteq> None \<and> cachedDb s \<noteq> None \<and> cachedCollection s \<noteq> None
      then Some (the (cachedClient s), the (cachedDb s), the (cachedCollection s))
      else None)"

definition cache_absent :: "server \<Rightarrow> bool" where
  "cache_absent s = (cachedClient s = None \<and> cachedDb s = None \<and> cachedCollection s = None)"

text \<open>The slots are set together or not at all, as at process start and after every call.\<close>

definition cache_consistent :: "server \<Rightarrow> bool" where
  "cache_consistent s = (cache_absent s \<or> cached s \<noteq> None)"

text \<open>The cached client was constructed by an earlier connect.\<close>

definition client_known :: "server \<Rightarrow> bool" where
  "client_known s =
     (case cachedClient s of None \<Rightarrow> True | Some (MongoClient i u) \<Rightarrow> i < connects s)"

definition credentials_set :: "world \<Rightarrow> bool" where
  "credentials_set w = (\<not> env_missing (DB_USER w) \<and> \<not> env_missing (DB_PASSWORD w))"

text \<open>A client with the database and collection references derived from it.\<close>

definition handle_of :: "client \<Rightarrow> client \<times> db \<times> collection" where
  "handle_of cl = (cl, Db cl ''parcelDB'', Collection (Db cl ''parcelDB'') ''parcels'')"

text \<open>The process at start, with the documents the remote collection holds.\<close>

definition initial :: "parcel list \<Rightarrow> server" where
  "initial docs =
     \<lparr>cachedClient = None, cachedDb = None, cachedCollection = None,
      connects = 0, pings = 0, parcels = docs\<rparr>"

subsection \<open>Searching\<close>

text \<open>
  The store's regular-expression search on the patterns whose only metacharacter is the
  dot: a dot matches any code unit but a line feed, any other code unit matches itself,
  caselessly under the option \<open>i\<close>, and the pattern may match anywhere in the subject.
\<close>

fun match_here :: "bool \<Rightarrow> string \<Rightarrow> string \<Rightarrow> bool" where
  "match_here ci [] v = True"
| "match_here ci (p # ps) [] = False"
| "match_here ci (p # ps) (c # cs) =
     ((if p = CHR ''.'' then c \<noteq> CHR 0x0A
       else if ci then to_lower p = to_lower c else p = c) \<and>
      match_here ci ps cs)"

fun match_anywhere :: "bool \<Rightarrow> string \<Rightarrow> string \<Rightarrow> bool" where
  "match_anywhere ci pat [] = match_here ci pat []"
| "match_anywhere ci pat (c # cs) = (match_here ci pat (c # cs) \<or> match_anywhere ci pat cs)"

definition dot_regex :: regex_engine where
  "dot_regex pat opts v = match_anywhere (CHR ''i'' \<in> set opts) pat v"

text \<open>The characters a regular expression reads as operators.\<close>

definition regex_meta :: "char \<Rightarrow> bool" where
  "regex_meta c = (c \<in> set ''.^$|?*+()[]{}'' \<or> c = CHR 0x5C)"

text \<open>
  The claimed match: \<open>v\<close> contains \<open>t\<close> as a substring, letter case aside, and a record
  matches a term when one of its five alias fields does (every record when the term is
  empty or absent).
\<close>

definition contains_caseless :: "string \<Rightarrow> string \<Rightarrow> bool" where
  "contains_caseless t v =
     list_ex (\<lambda>i. map to_lower (take (length t) (drop i v)) = map to_lower t)
       [0..<Suc (length v)]"

definition alias_contains :: "string option \<Rightarrow> parcel \<Rightarrow> bool" where
  "alias_contains term p =
     (case term of
        None \<Rightarrow> True
      | Some t \<Rightarrow>
          t = [] \<or>
          list_ex (\<lambda>k. case field_of p k of Some (BStr v) \<Rightarrow> contains_caseless t v | _ \<Rightarrow> False)
            alias_fields)"

subsection \<open>Ordering\<close>

text \<open>The four sort keys of a record, in priority order.\<close>

definition sort_tuple ::
  "parcel \<Rightarrow> (nat \<times> int \<times> string) \<times> (nat \<times> int \<times> string) \<times> (nat \<times> int \<times> string) \<times>
     (nat \<times> int \<times> string)" where
  "sort_tuple p =
     (sort_value p ''createdAt'', sort_value p ''date'', sort_value p ''timestamp'',
      sort_value p ''_id'')"

text \<open>
  The ordering the code does not use: each record is ranked by the first of the four
  fields it has a value for.
\<close>

definition first_available :: "parcel \<Rightarrow> nat \<times> int \<times> string" where
  "first_available p =
     (case filter (\<lambda>k. sort_value p k \<noteq> bson_key BNull)
             [''createdAt'', ''date'', ''timestamp'', ''_id''] of
        [] \<Rightarrow> bson_key BNull
      | k # ks \<Rightarrow> sort_value p k)"

subsection \<open>Deleting\<close>

text \<open>The records an identifier names under one of the three strategies.\<close>

definition names_parcel :: "string \<Rightarrow> parcel \<Rightarrow> bool" where
  "names_parcel parcelId p =
     (parcel_id p = NativeId (map to_lower parcelId) \<or> parcel_id p = TextId parcelId \<or>
      attrs p ''id'' = Some (BStr parcelId))"

subsection \<open>Sample worlds and records\<close>

definition quiet_world :: world where
  "quiet_world =
     \<lparr>DB_USER = Some ''zap'', DB_PASSWORD = Some ''p@ss'', ping_error = None,
      connect_error = None, store_error = (\<lambda>k. None), regex = dot_regex,
      generated_id = ''65f0c0ffee65f0c0ffee0001'',
      duplicate_key_message = ''E11000 duplicate key error''\<rparr>"

definition stale_world :: world where
  "stale_world = quiet_world\<lparr>ping_error := Some ''connection closed''\<rparr>"

definition unreachable_world :: world where
  "unreachable_world = quiet_world\<lparr>connect_error := Some ''getaddrinfo ENOTFOUND''\<rparr>"

definition bare_world :: world where
  "bare_world = quiet_world\<lparr>DB_USER := None, DB_PASSWORD := None\<rparr>"

definition passwordless_world :: world where
  "passwordless_world = quiet_world\<lparr>DB_PASSWORD := None\<rparr>"

definition failing_world :: world where
  "failing_world = quiet_world\<lparr>store_error := (\<lambda>k. Some ''socket hang up'')\<rparr>"

definition parcel_a :: parcel where
  "parcel_a =
     \<lparr>parcel_id = NativeId ''507f1f77bcf86cd799439011'',
      attrs = [''senderEmail'' \<mapsto> BStr ''a@x.com'', ''date'' \<mapsto> BNum 5]\<rparr>"

definition parcel_b :: parcel where
  "parcel_b =
     \<lparr>parcel_id = NativeId ''507f1f77bcf86cd799439012'',
      attrs = [''creatorEmail'' \<mapsto> BStr ''b@y.org'', ''createdAt'' \<mapsto> BNum 1]\<rparr>"

definition parcel_legacy :: parcel where
  "parcel_legacy =
     \<lparr>parcel_id = TextId ''legacy-7'', attrs = [''id'' \<mapsto> BStr ''not-a-valid-id'']\<rparr>"


definition by_path :: "string \<Rightarrow> request" where
  "by_path i = \<lparr>params_id = Some i, path = Some (''/parcels/'' @ i)\<rparr>"

section \<open>Properties of the connection cache\<close>

lemma sample_credentials:
  "encodeURIComponent ''zap'' = ''zap''" "encodeURIComponent ''p@ss'' = ''p%40ss''"
  "encodeURIComponent [CHR 0xE9] = ''%C3%A9''"
  by (simp_all add: encodeURIComponent_def uri_unreserved_def hex_digit_def percent_def)

lemma open_connection_ok:
  assumes "credentials_set w" and "connect_error w = None"
  shows "open_connection w s =
     (let cl = MongoClient (connects s)
                 (mongo_uri (encodeURIComponent (the (DB_USER w)))
                    (encodeURIComponent (the (DB_PASSWORD w))))
      in (Inr (handle_of cl),
          s\<lparr>connects := connects s + 1, cachedClient := Some cl,
            cachedDb := Some (Db cl ''parcelDB''),
            cachedCollection := Some (Collection (Db cl ''parcelDB'') ''parcels'')\<rparr>))"
  using assms by (simp add: open_connection_def credentials_set_def handle_of_def Let_def)

lemma open_connection_Inr:
  "open_connection w s = (Inr h, s') \<Longrightarrow>
   cached s' = Some h \<and> connects s' = connects s + 1 \<and> pings s' = pings s \<and>
   parcels s' = parcels s \<and> (\<exists>u. h = handle_of (MongoClient (connects s) u))"
  by (auto simp: open_connection_def cached_def handle_of_def Let_def
           split: if_splits option.splits)

lemma open_connection_Inl:
  "open_connection w s = (Inl e, s') \<Longrightarrow>
   cachedClient s' = cachedClient s \<and> cachedDb s' = cachedDb s \<and>
   cachedCollection s' = cachedCollection s \<and> pings s' = pings s \<and> parcels s' = parcels s \<and>
   s' = s\<lparr>connects := connects s'\<rparr> \<and>
   (if credentials_set w then
      connects s' = connects s + 1 \<and> connect_error w = Some (case e of Error m \<Rightarrow> m)
    else
      connects s' = connects s \<and>
      e = Error ''DB_USER and DB_PASSWORD environment variables are required'')"
  by (auto simp: open_connection_def credentials_set_def Let_def split: if_splits option.splits)

lemma connect_Inr_cached:
  "connectToDatabase w s = (Inr h, s') \<Longrightarrow> cached s' = Some h"
  by (auto simp: connectToDatabase_def cached_def split: if_splits option.splits
           dest: open_connection_Inr)

lemma connect_reuse:
  "cached s = Some h \<Longrightarrow> ping_error w = None \<Longrightarrow>
   connectToDatabase w s = (Inr h, s\<lparr>pings := pings s + 1\<rparr>)"
  by (auto simp: connectToDatabase_def cached_def split: if_splits)


lemma open_connection_counts:
  "connects (snd (open_connection w s)) = (if credentials_set w then connects s + 1 else connects s)
   \<and> pings (snd (open_connection w s)) = pings s"
  by (simp add: open_connection_def credentials_set_def Let_def split: option.splits)

lemma connect_absent:
  "cache_absent s \<Longrightarrow> connectToDatabase w s = open_connection w s"
  by (simp add: connectToDatabase_def cache_absent_def)

lemma connect_stale:
  "cached s = Some h \<Longrightarrow> ping_error w \<noteq> None \<Longrightarrow>
   connectToDatabase w s =
     open_connection w (s\<lparr>pings := pings s + 1, cachedClient := None, cachedDb := None,
                          cachedCollection := None\<rparr>)"
  by (auto simp: connectToDatabase_def cached_def split: if_splits)

text \<open>
  The two conditions on the cache that the properties below assume hold at process start
  and after every acquire.
\<close>

lemma cache_consistent_initial: "cache_consistent (initial docs)"
  by (simp add: cache_consistent_def cache_absent_def initial_def)

lemma cache_consistent_kept:
  "cache_consistent s \<Longrightarrow> cache_consistent (snd (connectToDatabase w s))"
  by (auto simp: cache_consistent_def cache_absent_def cached_def connectToDatabase_def
        open_connection_def Let_def split: option.splits if_splits)

lemma client_known_initial: "client_known (initial docs)"
  by (simp add: client_known_def initial_def)

lemma client_known_kept:
  "client_known s \<Longrightarrow> client_known (snd (connectToDatabase w s))"
  by (auto simp: client_known_def connectToDatabase_def open_connection_def Let_def
           split: option.splits if_splits client.splits)

text \<open>
  C2. When an acquire has returned a handle and the liveness probe of the next acquire
  succeeds, that acquire returns the same handle and changes nothing but the probe count:
  no connect is made. When the probe of a cached handle fails, the acquire drops that
  handle and makes at most one connect; whenever it returns a handle it has made exactly
  one connect, and the handle is a new client, different from the dropped one, cached
  together with the database and collection references derived from it. It does return
  one when the credentials are set and the connect succeeds.
\<close>

theorem acquire_reuses_then_reconnects:
  "(connectToDatabase w1 s = (Inr h, s1) \<and> ping_error w2 = None \<longrightarrow>
      connectToDatabase w2 s1 = (Inr h, s1\<lparr>pings := pings s1 + 1\<rparr>)) \<and>
   (cached s = Some h0 \<and> client_known s \<and> ping_error w \<noteq> None \<longrightarrow>
      cached (snd (connectToDatabase w s)) \<noteq> Some h0 \<and>
      connects (snd (connectToDatabase w s)) \<le> connects s + 1 \<and>
      (connectToDatabase w s = (Inr h1, s') \<longrightarrow>
         fst h1 \<noteq> fst h0 \<and> h1 = handle_of (fst h1) \<and> cached s' = Some h1 \<and>
         connects s' = connects s + 1) \<and>
      (credentials_set w \<and> connect_error w = None \<longrightarrow>
         (\<exists>cl. cl \<noteq> fst h0 \<and>
               fst (connectToDatabase w s) = Inr (handle_of cl) \<and>
               cached (snd (connectToDatabase w s)) = Some (handle_of cl) \<and>
               connects (snd (connectToDatabase w s)) = connects s + 1)))"
proof (intro conjI impI)
  assume "connectToDatabase w1 s = (Inr h, s1) \<and> ping_error w2 = None"
  then show "connectToDatabase w2 s1 = (Inr h, s1\<lparr>pings := pings s1 + 1\<rparr>)"
    using connect_Inr_cached connect_reuse by blast
next
  assume a: "cached s = Some h0 \<and> client_known s \<and> ping_error w \<noteq> None"
  let ?s0 = "s\<lparr>pings := pings s + 1, cachedClient := None, cachedDb := None,
               cachedCollection := None\<rparr>"
  have step: "connectToDatabase w s = open_connection w ?s0"
    using a connect_stale by blast
  obtain i u where cl0: "fst h0 = MongoClient i u" and lt: "i < connects s"
    using a by (auto simp: cached_def client_known_def split: if_splits client.splits)
  show "connects (snd (connectToDatabase w s)) \<le> connects s + 1"
    by (simp add: step open_connection_counts)
  show "cached (snd (connectToDatabase w s)) \<noteq> Some h0"
  proof (cases "open_connection w ?s0")
    case (Pair r s')
    show ?thesis
    proof (cases r)
      case (Inl e)
      with Pair have "cachedClient s' = None"
        using open_connection_Inl [of w ?s0 e s'] by simp
      moreover have "snd (connectToDatabase w s) = s'"
        using step Pair by simp
      ultimately show ?thesis by (simp add: cached_def)
    next
      case (Inr h)
      with Pair obtain u' where "cached s' = Some h" "h = handle_of (MongoClient (connects s) u')"
        using open_connection_Inr [of w ?s0 h s'] by auto
      moreover have "snd (connectToDatabase w s) = s'"
        using step Pair by simp
      ultimately show ?thesis using cl0 lt by (auto simp: handle_of_def)
    qed
  qed
  {
    assume r: "connectToDatabase w s = (Inr h1, s')"
    then have "open_connection w ?s0 = (Inr h1, s')" using step by simp
    then obtain u' where n: "cached s' = Some h1" "connects s' = connects ?s0 + 1"
      "h1 = handle_of (MongoClient (connects ?s0) u')"
      using open_connection_Inr [of w ?s0 h1 s'] by blast
    then have "fst h1 = MongoClient (connects s) u'" by (simp add: handle_of_def)
    with n show "fst h1 \<noteq> fst h0" and "h1 = handle_of (fst h1)" and "cached s' = Some h1"
      and "connects s' = connects s + 1"
      using cl0 lt by simp_all
  }
  assume b: "credentials_set w \<and> connect_error w = None"
  let ?cl = "MongoClient (connects s) (mongo_uri (encodeURIComponent (the (DB_USER w)))
               (encodeURIComponent (the (DB_PASSWORD w))))"
  have "?cl \<noteq> fst h0" using cl0 lt by simp
  moreover have "fst (connectToDatabase w s) = Inr (handle_of ?cl)"
    using b by (simp add: step open_connection_ok Let_def)
  moreover have "cached (snd (connectToDatabase w s)) = Some (handle_of ?cl)"
    using b by (simp add: step open_connection_ok cached_def handle_of_def Let_def)
  moreover have "connects (snd (connectToDatabase w s)) = connects s + 1"
    using b by (simp add: step open_connection_counts)
  ultimately show "\<exists>cl. cl \<noteq> fst h0 \<and>
               fst (connectToDatabase w s) = Inr (handle_of cl) \<and>
               cached (snd (connectToDatabase w s)) = Some (handle_of cl) \<and>
               connects (snd (connectToDatabase w s)) = connects s + 1"
    by blast
qed

theorem acquire_reuses_then_reconnects_witness:
  "connectToDatabase quiet_world (initial []) =
     (Inr (handle_of (MongoClient 0 (mongo_uri ''zap'' ''p%40ss''))),
      snd (connectToDatabase quiet_world (initial []))) \<and>
   ping_error quiet_world = None \<and>
   connectToDatabase quiet_world (snd (connectToDatabase quiet_world (initial []))) =
     (Inr (handle_of (MongoClient 0 (mongo_uri ''zap'' ''p%40ss''))),
      (snd (connectToDatabase quiet_world (initial [])))\<lparr>pings := 1\<rparr>) \<and>
   cached (snd (connectToDatabase quiet_world (initial []))) =
     Some (handle_of (MongoClient 0 (mongo_uri ''zap'' ''p%40ss''))) \<and>
   client_known (snd (connectToDatabase quiet_world (initial []))) \<and>
   ping_error stale_world \<noteq> None \<and> credentials_set stale_world \<and>
   connect_error stale_world = None \<and>
   fst (connectToDatabase stale_world (snd (connectToDatabase quiet_world (initial [])))) =
     Inr (handle_of (MongoClient 1 (mongo_uri ''zap'' ''p%40ss''))) \<and>
   connects (snd (connectToDatabase stale_world (snd (connectToDatabase quiet_world (initial []))))) = 2"
  using acquire_reuses_then_reconnects
          [of quiet_world "initial []" "handle_of (MongoClient 0 (mongo_uri ''zap'' ''p%40ss''))"
              "snd (connectToDatabase quiet_world (initial []))" quiet_world]
        acquire_reuses_then_reconnects
          [of quiet_world "snd (connectToDatabase quiet_world (initial []))" _ _ quiet_world
              "handle_of (MongoClient 0 (mongo_uri ''zap'' ''p%40ss''))" stale_world]
  by (simp add: connectToDatabase_def open_connection_def initial_def quiet_world_def
        stale_world_def env_missing_def sample_credentials
        handle_of_def cached_def client_known_def credentials_set_def Let_def)

text \<open>
  C10. The cache slots are written only after a connect has succeeded: a connect attempt
  that throws leaves the three slots as they were, and an acquire that throws (missing
  credentials or a failed connect) leaves the cache absent, changes nothing but the connect
  count when the cache was absent before, and leaves the stored documents alone. The next
  acquire then makes no probe and goes through the whole connect path, making a connect
  when the credentials are set.
\<close>

theorem failed_acquire_leaves_cache_absent:
  assumes "cache_consistent s" and "connectToDatabase w s = (Inl e, s')"
  shows "cache_absent s' \<and>
         (cache_absent s \<longrightarrow> s' = s\<lparr>connects := connects s'\<rparr>) \<and>
         parcels s' = parcels s \<and>
         (open_connection w0 s0 = (Inl e0, s0') \<longrightarrow>
            cachedClient s0' = cachedClient s0 \<and> cachedDb s0' = cachedDb s0 \<and>
            cachedCollection s0' = cachedCollection s0) \<and>
         connectToDatabase w' s' = open_connection w' s' \<and>
         pings (snd (connectToDatabase w' s')) = pings s' \<and>
         (credentials_set w' \<longrightarrow> connects (snd (connectToDatabase w' s')) = connects s' + 1)"
proof -
  have abs: "cache_absent s'" and same: "cache_absent s \<longrightarrow> s' = s\<lparr>connects := connects s'\<rparr>"
    and docs: "parcels s' = parcels s"
  proof -
    show "cache_absent s'"
    proof (cases "cache_absent s")
      case True
      then show ?thesis
        using assms(2) open_connection_Inl [of w s e s']
        by (simp add: connect_absent cache_absent_def)
    next
      case False
      then obtain h where h: "cached s = Some h"
        using assms(1) by (auto simp: cache_consistent_def)
      then have "ping_error w \<noteq> None"
        using assms(2) connect_reuse [of s h w] by auto
      then show ?thesis
        using assms(2) h open_connection_Inl [of w _ e s']
        by (simp add: connect_stale cache_absent_def)
    qed
    show "cache_absent s \<longrightarrow> s' = s\<lparr>connects := connects s'\<rparr>"
      using assms(2) open_connection_Inl [of w s e s'] by (auto simp: connect_absent)
    show "parcels s' = parcels s"
    proof (cases "cache_absent s")
      case True
      then show ?thesis
        using assms(2) open_connection_Inl [of w s e s'] by (simp add: connect_absent)
    next
      case False
      then obtain h where h: "cached s = Some h"
        using assms(1) by (auto simp: cache_consistent_def)
      then have "ping_error w \<noteq> None"
        using assms(2) connect_reuse [of s h w] by auto
      then show ?thesis
        using assms(2) h open_connection_Inl [of w _ e s'] by (simp add: connect_stale)
    qed
  qed
  have next_call: "connectToDatabase w' s' = open_connection w' s'"
    using abs by (rule connect_absent)
  have attempt: "open_connection w0 s0 = (Inl e0, s0') \<longrightarrow>
            cachedClient s0' = cachedClient s0 \<and> cachedDb s0' = cachedDb s0 \<and>
            cachedCollection s0' = cachedCollection s0"
    using open_connection_Inl [of w0 s0 e0 s0'] by blast
  show ?thesis
    using abs same docs attempt next_call by (simp add: open_connection_counts)
qed

theorem failed_acquire_leaves_cache_absent_witness:
  "cache_consistent (initial []) \<and>
   connectToDatabase unreachable_world (initial []) =
     (Inl (Error ''getaddrinfo ENOTFOUND''), (initial [])\<lparr>connects := 1\<rparr>) \<and>
   open_connection unreachable_world (initial []) =
     (Inl (Error ''getaddrinfo ENOTFOUND''), (initial [])\<lparr>connects := 1\<rparr>) \<and>
   cache_absent ((initial [])\<lparr>connects := 1\<rparr>) \<and>
   credentials_set quiet_world \<and>
   connects (snd (connectToDatabase quiet_world ((initial [])\<lparr>connects := 1\<rparr>))) = 2"
  using failed_acquire_leaves_cache_absent
          [where s = "initial []" and w = unreachable_world
             and e = "Error ''getaddrinfo ENOTFOUND''"
             and s' = "(initial [])\<lparr>connects := 1\<rparr>" and w' = quiet_world
             and ?w0.0 = unreachable_world and ?s0.0 = "initial []"
             and ?e0.0 = "Error ''getaddrinfo ENOTFOUND''"
             and ?s0' = "(initial [])\<lparr>connects := 1\<rparr>"]
  by (simp add: connectToDatabase_def open_connection_def initial_def quiet_world_def
        unreachable_world_def env_missing_def cache_consistent_def cache_absent_def
        credentials_set_def Let_def)

section \<open>Properties of the listing order\<close>

lemma connect_parcels: "parcels (snd (connectToDatabase w s)) = parcels s"
  by (simp add: connectToDatabase_def open_connection_def Let_def split: option.splits)

lemma lex_pair:
  fixes a b :: "'a::linorder" and u v :: "'b::order"
  shows "(b, v) \<le> (a, u) \<longleftrightarrow> (if a = b then v \<le> u else b < a)"
  by (auto simp: less_eq_prod_def)

lemma lex_last:
  fixes a b :: "'a::linorder"
  shows "b \<le> a \<longleftrightarrow> (if a = b then True else b < a)"
  by auto

lemma comes_before_default:
  "comes_before defaultSort a b \<longleftrightarrow> sort_tuple b \<le> sort_tuple a"
proof -
  have "sort_tuple b \<le> sort_tuple a \<longleftrightarrow>
        (if sort_value a ''createdAt'' = sort_value b ''createdAt'' then
           if sort_value a ''date'' = sort_value b ''date'' then
             if sort_value a ''timestamp'' = sort_value b ''timestamp'' then
               if sort_value a ''_id'' = sort_value b ''_id'' then True
               else sort_value b ''_id'' < sort_value a ''_id''
             else sort_value b ''timestamp'' < sort_value a ''timestamp''
           else sort_value b ''date'' < sort_value a ''date''
         else sort_value b ''createdAt'' < sort_value a ''createdAt'')"
    unfolding sort_tuple_def lex_pair
    using lex_last [of "sort_value b ''_id''" "sort_value a ''_id''"] by simp
  then show ?thesis by (simp add: defaultSort_def)
qed

lemma mset_insert_sorted: "mset (insert_sorted spec x ys) = add_mset x (mset ys)"
  by (induction ys) auto

lemma set_insert_sorted: "set (insert_sorted spec x ys) = insert x (set ys)"
  using mset_insert_sorted [of spec x ys] by (metis set_mset_add_mset_insert set_mset_mset)

lemma sorted_insert_sorted:
  "sorted_wrt (\<lambda>a b. sort_tuple b \<le> sort_tuple a) ys \<Longrightarrow>
   sorted_wrt (\<lambda>a b. sort_tuple b \<le> sort_tuple a) (insert_sorted defaultSort x ys)"
proof (induction ys)
  case Nil
  then show ?case by simp
next
  case (Cons y ys)
  show ?case
  proof (cases "comes_before defaultSort x y")
    case True
    then have "sort_tuple y \<le> sort_tuple x" by (simp add: comes_before_default)
    with Cons.prems show ?thesis using True by (auto intro: order_trans)
  next
    case False
    then have "sort_tuple x \<le> sort_tuple y" by (simp add: comes_before_default)
    with Cons show ?thesis using False by (auto simp: set_insert_sorted)
  qed
qed

lemma sort_docs_sorted:
  "sorted_wrt (\<lambda>a b. sort_tuple b \<le> sort_tuple a) (sort_docs defaultSort ps)"
  by (induction ps) (simp_all add: sort_docs_def sorted_insert_sorted)

lemma mset_sort_docs: "mset (sort_docs spec ps) = mset ps"
  by (induction ps) (simp_all add: sort_docs_def mset_insert_sorted)

lemma find_sorted_default:
  "find_sorted w k q defaultSort docs = Inr ps \<Longrightarrow>
   sorted_wrt (\<lambda>a b. sort_tuple b \<le> sort_tuple a) ps \<and>
   mset ps = mset (filter (matches (regex w) q) docs)"
  by (auto simp: find_sorted_def sort_docs_sorted mset_sort_docs split: option.splits)

lemma get_parcels_200:
  "status (fst (get_parcels w s email)) = 200 \<Longrightarrow>
   \<exists>ps. find_sorted w 0 (buildEmailFilter email) defaultSort (parcels s) = Inr ps \<and>
        body (fst (get_parcels w s email)) = JsonDocs (map serialise ps)"
  using connect_parcels [of w s]
  by (auto simp: get_parcels_def failure_def split: prod.splits sum.splits js_error.splits)

lemma get_parcels_user_200:
  "status (fst (get_parcels_user w s email)) = 200 \<Longrightarrow>
   \<exists>ps. find_sorted w 0 (email_or email) defaultSort (parcels s) = Inr ps \<and>
        body (fst (get_parcels_user w s email)) = JsonDocs (map serialise ps)"
  using connect_parcels [of w s]
  by (auto simp: get_parcels_user_def failure_def split: prod.splits sum.splits js_error.splits)

lemma standalone_get_parcels_200:
  "status (fst (standalone_get_parcels w s email)) = 200 \<Longrightarrow>
   \<exists>ps. find_sorted w 0 (standalone_filter email) defaultSort (stored s) = Inr ps \<and>
        body (fst (standalone_get_parcels w s email)) = JsonDocs (map serialise ps)"
  by (auto simp: standalone_get_parcels_def failure_def not_connected_def
           split: if_splits sum.splits js_error.splits)

lemma sample_order:
  "sort_docs defaultSort [parcel_a, parcel_b] = [parcel_b, parcel_a]"
  by (simp add: sort_docs_def defaultSort_def sort_value_def field_of_def parcel_a_def parcel_b_def)

lemma sample_not_first_available:
  "\<not> sorted_wrt (\<lambda>a b. first_available b \<le> first_available a) [parcel_b, parcel_a]"
  by (simp add: first_available_def sort_value_def field_of_def parcel_a_def parcel_b_def)


text \<open>
  C7. Every listing (the serverless \<^verbatim>\<open>GET /parcels\<close> and \<^verbatim>\<open>GET /parcels/user/:email\<close>, the
  standalone \<^verbatim>\<open>GET /parcels\<close>) answers with the records its filter matches, each once,
  ordered by one compound sort: the tuples (creation timestamp, date, timestamp, locator)
  descend along the list, tuples being compared lexicographically, a later key deciding
  only when all earlier ones are equal. This is not the order by the first field a record
  has a value for: of two sample records, one with only a date of 5 and one with only a
  creation timestamp of 1, the code lists the second first.
\<close>

theorem listing_is_compound_sorted:
  "(status (fst (get_parcels w s email)) = 200 \<longrightarrow>
      (\<exists>ps. body (fst (get_parcels w s email)) = JsonDocs (map serialise ps) \<and>
            mset ps = mset (filter (matches (regex w) (buildEmailFilter email)) (parcels s)) \<and>
            sorted_wrt (\<lambda>a b. sort_tuple b \<le> sort_tuple a) ps)) \<and>
   (status (fst (get_parcels_user w s addr)) = 200 \<longrightarrow>
      (\<exists>ps. body (fst (get_parcels_user w s addr)) = JsonDocs (map serialise ps) \<and>
            mset ps = mset (filter (matches (regex w) (email_or addr)) (parcels s)) \<and>
            sorted_wrt (\<lambda>a b. sort_tuple b \<le> sort_tuple a) ps)) \<and>
   (status (fst (standalone_get_parcels w t email)) = 200 \<longrightarrow>
      (\<exists>ps. body (fst (standalone_get_parcels w t email)) = JsonDocs (map serialise ps) \<and>
            mset ps = mset (filter (matches (regex w) (standalone_filter email)) (stored t)) \<and>
            sorted_wrt (\<lambda>a b. sort_tuple b \<le> sort_tuple a) ps)) \<and>
   (sort_tuple b \<le> sort_tuple a \<longleftrightarrow>
      (if sort_value a ''createdAt'' = sort_value b ''createdAt'' then
         if sort_value a ''date'' = sort_value b ''date'' then
           if sort_value a ''timestamp'' = sort_value b ''timestamp'' then
             sort_value b ''_id'' \<le> sort_value a ''_id''
           else sort_value b ''timestamp'' < sort_value a ''timestamp''
         else sort_value b ''date'' < sort_value a ''date''
       else sort_value b ''createdAt'' < sort_value a ''createdAt'')) \<and>
   sort_docs defaultSort [parcel_a, parcel_b] = [parcel_b, parcel_a] \<and>
   \<not> sorted_wrt (\<lambda>a b. first_available b \<le> first_available a)
        (sort_docs defaultSort [parcel_a, parcel_b])"
proof (intro conjI impI)
  assume "status (fst (get_parcels w s email)) = 200"
  then show "\<exists>ps. body (fst (get_parcels w s email)) = JsonDocs (map serialise ps) \<and>
            mset ps = mset (filter (matches (regex w) (buildEmailFilter email)) (parcels s)) \<and>
            sorted_wrt (\<lambda>a b. sort_tuple b \<le> sort_tuple a) ps"
    using get_parcels_200 find_sorted_default by blast
next
  assume "status (fst (get_parcels_user w s addr)) = 200"
  then show "\<exists>ps. body (fst (get_parcels_user w s addr)) = JsonDocs (map serialise ps) \<and>
            mset ps = mset (filter (matches (regex w) (email_or addr)) (parcels s)) \<and>
            sorted_wrt (\<lambda>a b. sort_tuple b \<le> sort_tuple a) ps"
    using get_parcels_user_200 find_sorted_default by blast
next
  assume "status (fst (standalone_get_parcels w t email)) = 200"
  then show "\<exists>ps. body (fst (standalone_get_parcels w t email)) = JsonDocs (map serialise ps) \<and>
            mset ps = mset (filter (matches (regex w) (standalone_filter email)) (stored t)) \<and>
            sorted_wrt (\<lambda>a b. sort_tuple b \<le> sort_tuple a) ps"
    using standalone_get_parcels_200 find_sorted_default by blast
next
  show "sort_tuple b \<le> sort_tuple a \<longleftrightarrow>
      (if sort_value a ''createdAt'' = sort_value b ''createdAt'' then
         if sort_value a ''date'' = sort_value b ''date'' then
           if sort_value a ''timestamp'' = sort_value b ''timestamp'' then
             sort_value b ''_id'' \<le> sort_value a ''_id''
           else sort_value b ''timestamp'' < sort_value a ''timestamp''
         else sort_value b ''date'' < sort_value a ''date''
       else sort_value b ''createdAt'' < sort_value a ''createdAt'')"
    unfolding sort_tuple_def lex_pair by simp
next
  show "sort_docs defaultSort [parcel_a, parcel_b] = [parcel_b, parcel_a]"
    by (rule sample_order)
next
  show "\<not> sorted_wrt (\<lambda>a b. first_available b \<le> first_available a)
        (sort_docs defaultSort [parcel_a, parcel_b])"
    unfolding sample_order by (rule sample_not_first_available)
qed

lemma standalone_started:
  "start quiet_world docs =
     Some \<lparr>client = MongoClient 0 (mongo_uri ''zap'' ''p%40ss''),
           db = Some (Db (MongoClient 0 (mongo_uri ''zap'' ''p%40ss'')) ''parcelDB''),
           parcelsCollection =
             Some (Collection (Db (MongoClient 0 (mongo_uri ''zap'' ''p%40ss'')) ''parcelDB'')
                     ''parcels''),
           stored = docs\<rparr>"
  by (simp add: start_def load_def run_def quiet_world_def env_missing_def env_or_empty_def
        sample_credentials userinfo_empty_def mongo_uri_def Let_def)

lemma quiet_connect:
  "connectToDatabase quiet_world (initial docs) =
     (Inr (handle_of (MongoClient 0 (mongo_uri ''zap'' ''p%40ss''))),
      \<lparr>cachedClient = Some (MongoClient 0 (mongo_uri ''zap'' ''p%40ss'')),
       cachedDb = Some (Db (MongoClient 0 (mongo_uri ''zap'' ''p%40ss'')) ''parcelDB''),
       cachedCollection =
         Some (Collection (Db (MongoClient 0 (mongo_uri ''zap'' ''p%40ss'')) ''parcelDB'') ''parcels''),
       connects = 1, pings = 0, parcels = docs\<rparr>)"
  by (simp add: connectToDatabase_def open_connection_def initial_def quiet_world_def
        env_missing_def sample_credentials handle_of_def
        Let_def)

lemma quiet_fields:
  "store_error quiet_world k = None" "regex quiet_world = dot_regex"
  by (simp_all add: quiet_world_def)

lemma parcels_initial: "parcels (initial docs) = docs"
  by (simp add: initial_def)

lemma quiet_three:
  "store_error quiet_world 0 = None" "store_error quiet_world 1 = None"
  "store_error quiet_world 2 = None" "\<forall>k<3. store_error quiet_world k = None"
  by (simp_all add: quiet_fields)


theorem listing_is_compound_sorted_witness:
  "status (fst (get_parcels quiet_world (initial [parcel_a, parcel_b]) None)) = 200 \<and>
   body (fst (get_parcels quiet_world (initial [parcel_a, parcel_b]) None)) =
     JsonDocs (map serialise [parcel_b, parcel_a]) \<and>
   status (fst (get_parcels_user quiet_world (initial [parcel_a, parcel_b]) ''A@X'')) = 200 \<and>
   body (fst (get_parcels_user quiet_world (initial [parcel_a, parcel_b]) ''A@X'')) =
     JsonDocs (map serialise [parcel_a]) \<and>
   status (fst (standalone_get_parcels quiet_world
     (the (start quiet_world [parcel_a, parcel_b])) None)) = 200"
  using listing_is_compound_sorted
          [where w = quiet_world and s = "initial [parcel_a, parcel_b]" and email = None
             and addr = "''A@X''"
             and t = "the (start quiet_world [parcel_a, parcel_b])"
             and a = parcel_a and b = parcel_b]
  by (simp add: get_parcels_def get_parcels_user_def standalone_get_parcels_def quiet_connect
        standalone_started quiet_fields find_sorted_def buildEmailFilter_def
        standalone_filter_def email_or_def sample_order dot_regex_def field_of_def
        parcel_a_def parcel_b_def to_lower_def sort_docs_def defaultSort_def sort_value_def)

section \<open>Properties of the email filter\<close>

lemma match_here_literal:
  "CHR ''.'' \<notin> set t \<Longrightarrow>
   match_here True t v \<longleftrightarrow> map to_lower (take (length t) v) = map to_lower t"
proof (induction t arbitrary: v)
  case Nil
  then show ?case by simp
next
  case (Cons p ps)
  then show ?case by (cases v) auto
qed

lemma match_anywhere_somewhere:
  "match_anywhere ci pat v \<longleftrightarrow> (\<exists>i\<le>length v. match_here ci pat (drop i v))"
proof (induction v)
  case Nil
  then show ?case by simp
next
  case (Cons c cs)
  have "(\<exists>i\<le>length (c # cs). match_here ci pat (drop i (c # cs))) \<longleftrightarrow>
        match_here ci pat (c # cs) \<or> (\<exists>j\<le>length cs. match_here ci pat (drop j cs))"
  proof
    assume "\<exists>i\<le>length (c # cs). match_here ci pat (drop i (c # cs))"
    then obtain i where i: "i \<le> length (c # cs)" "match_here ci pat (drop i (c # cs))" by blast
    show "match_here ci pat (c # cs) \<or> (\<exists>j\<le>length cs. match_here ci pat (drop j cs))"
    proof (cases i)
      case 0
      with i show ?thesis by simp
    next
      case (Suc j)
      with i have "j \<le> length cs" "match_here ci pat (drop j cs)" by simp_all
      then show ?thesis by blast
    qed
  next
    assume "match_here ci pat (c # cs) \<or> (\<exists>j\<le>length cs. match_here ci pat (drop j cs))"
    then show "\<exists>i\<le>length (c # cs). match_here ci pat (drop i (c # cs))"
    proof
      assume "match_here ci pat (c # cs)"
      then have "0 \<le> length (c # cs) \<and> match_here ci pat (drop 0 (c # cs))" by simp
      then show ?thesis by blast
    next
      assume "\<exists>j\<le>length cs. match_here ci pat (drop j cs)"
      then obtain j where "j \<le> length cs" "match_here ci pat (drop j cs)" by blast
      then have "Suc j \<le> length (c # cs) \<and> match_here ci pat (drop (Suc j) (c # cs))" by simp
      then show ?thesis by blast
    qed
  qed
  with Cons show ?case by simp
qed

lemma contains_caseless_somewhere:
  "contains_caseless t v \<longleftrightarrow>
   (\<exists>i\<le>length v. map to_lower (take (length t) (drop i v)) = map to_lower t)"
proof -
  have "set [0..<Suc (length v)] = {i. i \<le> length v}" by auto
  then show ?thesis
    unfolding contains_caseless_def list_ex_iff by blast
qed

lemma dot_regex_literal:
  assumes "list_all (\<lambda>c. \<not> regex_meta c) t"
  shows "dot_regex t ''i'' v = contains_caseless t v"
proof -
  have "CHR ''.'' \<notin> set t"
    using assms by (auto simp: list_all_iff regex_meta_def)
  then show ?thesis
    by (simp add: dot_regex_def match_anywhere_somewhere contains_caseless_somewhere
          match_here_literal)
qed

lemma matches_email_or:
  "matches rx (email_or t) p \<longleftrightarrow>
   list_ex (\<lambda>k. case field_of p k of Some (BStr v) \<Rightarrow> rx t ''i'' v | _ \<Rightarrow> False) alias_fields"
  by (simp add: email_or_def alias_fields_def)

lemma alias_search_cong:
  assumes "\<forall>v. f v = g v"
  shows "list_ex (\<lambda>k. case field_of p k of Some (BStr v) \<Rightarrow> f v | _ \<Rightarrow> False) ks =
         list_ex (\<lambda>k. case field_of p k of Some (BStr v) \<Rightarrow> g v | _ \<Rightarrow> False) ks"
  using assms by (induction ks) (auto split: option.splits bson.splits)

text \<open>
  C3 (as amended). The filter of the serverless \<^verbatim>\<open>GET /parcels\<close> matches every record when
  the term is absent or empty; otherwise it matches a record exactly when one of its five
  alias fields holds a string in which the store's regular-expression search, with the
  term as the pattern and caseless, finds a match. Whenever that search agrees with
  caseless substring containment on the term, the filter matches exactly the records with
  an alias field containing the term; the modelled search agrees on every term free of
  pattern operators.
\<close>

theorem email_filter_is_regex_search:
  "(matches rx (buildEmailFilter email) p \<longleftrightarrow>
      (case email of
         None \<Rightarrow> True
       | Some e \<Rightarrow>
           e = [] \<or>
           list_ex (\<lambda>k. case field_of p k of Some (BStr v) \<Rightarrow> rx e ''i'' v | _ \<Rightarrow> False)
             alias_fields)) \<and>
   ((\<forall>v. rx t ''i'' v = contains_caseless t v) \<longrightarrow>
      matches rx (buildEmailFilter (Some t)) p = alias_contains (Some t) p) \<and>
   (list_all (\<lambda>c. \<not> regex_meta c) t \<longrightarrow>
      matches dot_regex (buildEmailFilter (Some t)) p = alias_contains (Some t) p)"
proof (intro conjI impI)
  show "matches rx (buildEmailFilter email) p \<longleftrightarrow>
      (case email of
         None \<Rightarrow> True
       | Some e \<Rightarrow>
           e = [] \<or>
           list_ex (\<lambda>k. case field_of p k of Some (BStr v) \<Rightarrow> rx e ''i'' v | _ \<Rightarrow> False)
             alias_fields)"
    by (cases email) (simp_all add: buildEmailFilter_def matches_email_or)
next
  assume "\<forall>v. rx t ''i'' v = contains_caseless t v"
  then show "matches rx (buildEmailFilter (Some t)) p = alias_contains (Some t) p"
    using alias_search_cong [of "rx t ''i''" "contains_caseless t" p alias_fields]
    by (simp add: buildEmailFilter_def matches_email_or alias_contains_def)
next
  assume "list_all (\<lambda>c. \<not> regex_meta c) t"
  then have "\<forall>v. dot_regex t ''i'' v = contains_caseless t v"
    by (simp add: dot_regex_literal)
  then show "matches dot_regex (buildEmailFilter (Some t)) p = alias_contains (Some t) p"
    using alias_search_cong [of "dot_regex t ''i''" "contains_caseless t" p alias_fields]
    by (simp add: buildEmailFilter_def matches_email_or alias_contains_def)
qed

theorem email_filter_is_regex_search_witness:
  "(\<forall>v. dot_regex ''A@X'' ''i'' v = contains_caseless ''A@X'' v) \<and>
   list_all (\<lambda>c. \<not> regex_meta c) ''A@X'' \<and>
   matches dot_regex (buildEmailFilter (Some ''A@X'')) parcel_a \<and>
   alias_contains (Some ''A@X'') parcel_a \<and>
   \<not> matches dot_regex (buildEmailFilter (Some ''A@X'')) parcel_b"
proof -
  have lit: "list_all (\<lambda>c. \<not> regex_meta c) ''A@X''"
    by (simp add: regex_meta_def)
  have agree: "\<forall>v. dot_regex ''A@X'' ''i'' v = contains_caseless ''A@X'' v"
    using lit by (simp add: dot_regex_literal)
  show ?thesis
    using email_filter_is_regex_search [of dot_regex "Some ''A@X''" parcel_a "''A@X''"]
      email_filter_is_regex_search [of dot_regex "Some ''A@X''" parcel_b "''A@X''"]
      lit agree
    by (simp add: alias_contains_def alias_fields_def field_of_def parcel_a_def parcel_b_def
          contains_caseless_def to_lower_def)
qed

text \<open>
  The claim fails at the term \<open>a.x\<close>: the filter matches a record whose sender address is
  \<open>a@x.com\<close>, which does not contain the term. (The standalone variant, moreover, leaves
  out the fifth alias field.)
\<close>

theorem email_filter_counterexample:
  "matches dot_regex (buildEmailFilter (Some ''a.x'')) parcel_a \<and>
   \<not> alias_contains (Some ''a.x'') parcel_a \<and>
   alias_contains (Some ''b@y'') parcel_b \<and>
   \<not> matches dot_regex (standalone_filter (Some ''b@y'')) parcel_b"
  by (simp add: buildEmailFilter_def email_or_def standalone_filter_def alias_contains_def
        alias_fields_def field_of_def parcel_a_def parcel_b_def dot_regex_def
        contains_caseless_def to_lower_def)

section \<open>Properties of deleting\<close>

lemma field_native:
  "field_of p ''_id'' = Some (new_ObjectId i) \<longleftrightarrow> parcel_id p = NativeId (map to_lower i)"
  by (cases "parcel_id p") (simp_all add: field_of_def new_ObjectId_def)

lemma field_text:
  "field_of p ''_id'' = Some (BStr i) \<longleftrightarrow> parcel_id p = TextId i"
  by (cases "parcel_id p") (simp_all add: field_of_def)

lemma field_id: "field_of p ''id'' = attrs p ''id''"
  by (simp add: field_of_def)

lemma delete_first_none:
  "\<forall>x\<in>set xs. \<not> P x \<Longrightarrow> delete_first P xs = (0, xs)"
  by (induction xs) simp_all

lemma delete_first_some:
  "\<exists>x\<in>set xs. P x \<Longrightarrow>
   fst (delete_first P xs) = 1 \<and>
   (\<exists>d\<in>set xs. P d \<and> mset xs = add_mset d (mset (snd (delete_first P xs))))"
proof (induction xs)
  case Nil
  then show ?case by simp
next
  case (Cons x xs)
  show ?case
  proof (cases "P x")
    case True
    then show ?thesis by auto
  next
    case False
    with Cons.prems have "\<exists>y\<in>set xs. P y" by auto
    with Cons.IH obtain d where "fst (delete_first P xs) = 1" "d \<in> set xs" "P d"
      "mset xs = add_mset d (mset (snd (delete_first P xs)))" by blast
    with False show ?thesis by auto
  qed
qed

lemma deleteOne_quiet:
  "store_error w k = None \<Longrightarrow>
   deleteOne w k q docs =
     (Inr (fst (delete_first (matches (regex w) q) docs)),
      snd (delete_first (matches (regex w) q) docs))"
  by (simp add: deleteOne_def)

lemma delete_strategies_none:
  assumes "\<forall>k<3. store_error w k = None" and "\<forall>p\<in>set docs. \<not> names_parcel i p"
  shows "delete_strategies w i docs = (Inr 0, docs)"
proof -
  have e: "store_error w 0 = None" "store_error w (Suc 0) = None" "store_error w 2 = None"
    using assms(1) by simp_all
  have "delete_first (matches (regex w) (FieldEq ''_id'' (new_ObjectId i))) docs = (0, docs)"
    using assms(2) by (intro delete_first_none) (simp add: field_native names_parcel_def)
  moreover have "delete_first (matches (regex w) (FieldEq ''_id'' (BStr i))) docs = (0, docs)"
    using assms(2) by (intro delete_first_none) (simp add: field_text names_parcel_def)
  moreover have "delete_first (matches (regex w) (FieldEq ''id'' (BStr i))) docs = (0, docs)"
    using assms(2) by (intro delete_first_none) (simp add: field_id names_parcel_def)
  ultimately show ?thesis
    by (simp add: delete_strategies_def deleteOne_quiet e)
qed

lemma delete_strategies_some:
  assumes "\<forall>k<3. store_error w k = None" and "\<exists>p\<in>set docs. names_parcel i p"
  shows "\<exists>d\<in>set docs. \<exists>rest. names_parcel i d \<and> delete_strategies w i docs = (Inr 1, rest) \<and>
           mset docs = add_mset d (mset rest)"
proof -
  have e: "store_error w 0 = None" "store_error w (Suc 0) = None" "store_error w 2 = None"
    using assms(1) by simp_all
  let ?n = "matches (regex w) (FieldEq ''_id'' (new_ObjectId i))"
  let ?t = "matches (regex w) (FieldEq ''_id'' (BStr i))"
  let ?f = "matches (regex w) (FieldEq ''id'' (BStr i))"
  show ?thesis
  proof (cases "\<exists>p\<in>set docs. ?n p")
    case True
    from delete_first_some [OF True] obtain d where
      "fst (delete_first ?n docs) = 1" "d \<in> set docs" "?n d"
      "mset docs = add_mset d (mset (snd (delete_first ?n docs)))" by blast
    then show ?thesis
      by (auto simp: delete_strategies_def deleteOne_quiet e field_native names_parcel_def)
  next
    case no_native: False
    then have n0: "delete_first ?n docs = (0, docs)" by (intro delete_first_none) simp
    show ?thesis
    proof (cases "\<exists>p\<in>set docs. ?t p")
      case True
      from delete_first_some [OF True] obtain d where
        "fst (delete_first ?t docs) = 1" "d \<in> set docs" "?t d"
        "mset docs = add_mset d (mset (snd (delete_first ?t docs)))" by blast
      then show ?thesis
        by (auto simp: delete_strategies_def deleteOne_quiet e n0 field_text names_parcel_def)
    next
      case no_text: False
      then have t0: "delete_first ?t docs = (0, docs)" by (intro delete_first_none) simp
      have "\<exists>p\<in>set docs. ?f p"
        using assms(2) no_native no_text
        by (auto simp: names_parcel_def field_native field_text field_id)
      from delete_first_some [OF this] obtain d where
        "fst (delete_first ?f docs) = 1" "d \<in> set docs" "?f d"
        "mset docs = add_mset d (mset (snd (delete_first ?f docs)))" by blast
      then show ?thesis
        by (auto simp: delete_strategies_def deleteOne_quiet e n0 t0 field_id
              names_parcel_def)
    qed
  qed
qed

lemma valid_not_empty: "ObjectId_isValid i \<Longrightarrow> i \<noteq> []"
  by (auto simp: ObjectId_isValid_def)

lemma connect_Inr_parcels:
  "connectToDatabase w s = (Inr h, s1) \<Longrightarrow> parcels s1 = parcels s"
  using connect_parcels [of w s] by simp

lemma handle_delete_unfold:
  assumes "connectToDatabase w s = (Inr h, s1)" and "raw_parcelId req = Some raw"
  shows "handleDeleteParcelById w s req =
     (if trim raw = [] \<or> \<not> ObjectId_isValid (trim raw) then
        (Inr (invalid_id cors_any (JString (trim raw))), s1)
      else
        (case delete_strategies w (trim raw) (parcels s1) of
           (Inl e, docs) \<Rightarrow> (Inl e, s1\<lparr>parcels := docs\<rparr>)
         | (Inr n, docs) \<Rightarrow>
             if n = 0 then
               (Inr \<lparr>status = 404, headers = json_type @ cors_any,
                     body = Json [(''error'', JString ''Parcel not found''),
                                  (''parcelId'', JString (trim raw)),
                                  (''hint'', JString delete_hint)]\<rparr>,
                s1\<lparr>parcels := docs\<rparr>)
             else (Inr (deleted (trim raw) n), s1\<lparr>parcels := docs\<rparr>)))"
  using assms
  by (auto simp: handleDeleteParcelById_def Let_def split: prod.splits sum.splits)

lemma handle_delete_undefined:
  assumes "connectToDatabase w s = (Inr h, s1)" and "raw_parcelId req = None"
  shows "handleDeleteParcelById w s req = (Inr (invalid_id cors_any JUndefined), s1)"
  using assms by (simp add: handleDeleteParcelById_def)


lemma route_delete:
  "delete_parcels_id w s req =
     (case handleDeleteParcelById w s req of
        (Inl (Error m), s1) \<Rightarrow> (failure ''Failed to delete parcel'' cors_any m, s1)
      | (Inr r, s1) \<Rightarrow> (r, s1))"
  "delete_api_parcels_id w s req = delete_parcels_id w s req"
  by (simp_all add: delete_parcels_id_def delete_api_parcels_id_def)

lemma raw_by_path: "i \<noteq> [] \<Longrightarrow> raw_parcelId (by_path i) = Some i"
  by (simp add: raw_parcelId_def by_path_def)

lemma trim_padded:
  assumes "list_all is_js_whitespace a" and "list_all is_js_whitespace b"
  shows "trim (a @ x @ b) = trim x"
proof -
  have front: "dropWhile is_js_whitespace (a @ x @ b) = dropWhile is_js_whitespace (x @ b)"
    using assms(1) by (simp add: list_all_iff dropWhile_append2)
  show ?thesis
  proof (cases "list_all is_js_whitespace x")
    case True
    then have nil: "dropWhile is_js_whitespace x = []" "dropWhile is_js_whitespace (x @ b) = []"
      using assms(2) by (auto simp: list_all_iff dropWhile_eq_Nil_conv)
    show ?thesis unfolding trim_def front nil by (rule refl)
  next
    case False
    then obtain c where "c \<in> set x" "\<not> is_js_whitespace c"
      by (auto simp: list_all_iff)
    then have "dropWhile is_js_whitespace (x @ b) = dropWhile is_js_whitespace x @ b"
      by (simp add: dropWhile_append1)
    moreover have "dropWhile is_js_whitespace (rev b @ rev (dropWhile is_js_whitespace x)) =
                   dropWhile is_js_whitespace (rev (dropWhile is_js_whitespace x))"
      using assms(2) by (intro dropWhile_append2) (auto simp: list_all_iff)
    ultimately show ?thesis by (simp add: trim_def front)
  qed
qed

lemma handle_delete_by_trimmed:
  assumes "map_option trim (raw_parcelId r1) = map_option trim (raw_parcelId r2)"
  shows "handleDeleteParcelById w s r1 = handleDeleteParcelById w s r2"
  unfolding handleDeleteParcelById_def assms by (rule refl)

text \<open>
  C9. The path delete handler trims the identifier before it validates it and before any
  match: its answer and its effect depend on the request only through the trimmed
  identifier, so two requests whose identifiers differ by surrounding white space get the
  same answer and leave the same state, on both routes. When the answer is 400, the
  trimmed identifier is empty or ill-formed and \<^verbatim>\<open>receivedId\<close> is the trimmed identifier.
\<close>

theorem delete_trims_identifier:
  "(map_option trim (raw_parcelId r1) = map_option trim (raw_parcelId r2) \<longrightarrow>
      delete_parcels_id w s r1 = delete_parcels_id w s r2 \<and>
      delete_api_parcels_id w s r1 = delete_api_parcels_id w s r2) \<and>
   (raw_parcelId r1 = Some x \<and> raw_parcelId r2 = Some (a @ x @ b) \<and>
    list_all is_js_whitespace a \<and> list_all is_js_whitespace b \<longrightarrow>
      delete_parcels_id w s r1 = delete_parcels_id w s r2 \<and>
      delete_api_parcels_id w s r1 = delete_api_parcels_id w s r2) \<and>
   (raw_parcelId r = Some x \<and> status (fst (delete_parcels_id w s r)) = 400 \<longrightarrow>
      (trim x = [] \<or> \<not> ObjectId_isValid (trim x)) \<and>
      body (fst (delete_parcels_id w s r)) =
        Json [(''error'', JString ''Invalid parcel ID format''),
              (''receivedId'', JString (trim x))])"
proof (intro conjI impI)
  assume "map_option trim (raw_parcelId r1) = map_option trim (raw_parcelId r2)"
  then have "handleDeleteParcelById w s r1 = handleDeleteParcelById w s r2"
    by (rule handle_delete_by_trimmed)
  then show "delete_parcels_id w s r1 = delete_parcels_id w s r2"
    and "delete_api_parcels_id w s r1 = delete_api_parcels_id w s r2"
    by (simp_all add: route_delete)
next
  assume "raw_parcelId r1 = Some x \<and> raw_parcelId r2 = Some (a @ x @ b) \<and>
    list_all is_js_whitespace a \<and> list_all is_js_whitespace b"
  then have "map_option trim (raw_parcelId r1) = map_option trim (raw_parcelId r2)"
    by (simp add: trim_padded)
  then have "handleDeleteParcelById w s r1 = handleDeleteParcelById w s r2"
    by (rule handle_delete_by_trimmed)
  then show "delete_parcels_id w s r1 = delete_parcels_id w s r2"
    and "delete_api_parcels_id w s r1 = delete_api_parcels_id w s r2"
    by (simp_all add: route_delete)
next
  assume a: "raw_parcelId r = Some x \<and> status (fst (delete_parcels_id w s r)) = 400"
  obtain res s1 where c: "connectToDatabase w s = (res, s1)" by (cases "connectToDatabase w s")
  have both: "(trim x = [] \<or> \<not> ObjectId_isValid (trim x)) \<and>
      body (fst (delete_parcels_id w s r)) =
        Json [(''error'', JString ''Invalid parcel ID format''),
              (''receivedId'', JString (trim x))]"
  proof (cases res)
    case (Inl e)
    then have "status (fst (delete_parcels_id w s r)) = 500"
      using c by (cases e) (simp add: route_delete handleDeleteParcelById_def failure_def)
    with a show ?thesis by simp
  next
    case (Inr h)
    with c a have u: "handleDeleteParcelById w s r =
       (if trim x = [] \<or> \<not> ObjectId_isValid (trim x) then
          (Inr (invalid_id cors_any (JString (trim x))), s1)
        else
          (case delete_strategies w (trim x) (parcels s1) of
             (Inl e, docs) \<Rightarrow> (Inl e, s1\<lparr>parcels := docs\<rparr>)
           | (Inr n, docs) \<Rightarrow>
               if n = 0 then
                 (Inr \<lparr>status = 404, headers = json_type @ cors_any,
                       body = Json [(''error'', JString ''Parcel not found''),
                                    (''parcelId'', JString (trim x)),
                                    (''hint'', JString delete_hint)]\<rparr>,
                  s1\<lparr>parcels := docs\<rparr>)
               else (Inr (deleted (trim x) n), s1\<lparr>parcels := docs\<rparr>)))"
      using handle_delete_unfold [of w s h s1 r x] by simp
    show ?thesis
    proof (cases "trim x = [] \<or> \<not> ObjectId_isValid (trim x)")
      case True
      then show ?thesis by (simp add: route_delete u invalid_id_def)
    next
      case False
      then have "status (fst (delete_parcels_id w s r)) \<noteq> 400"
        by (auto simp: route_delete u failure_def deleted_def
                 split: prod.splits sum.splits js_error.splits)
      with a show ?thesis by simp
    qed
  qed
  from both show "trim x = [] \<or> \<not> ObjectId_isValid (trim x)" by simp
  from both show "body (fst (delete_parcels_id w s r)) =
        Json [(''error'', JString ''Invalid parcel ID format''),
              (''receivedId'', JString (trim x))]" by simp
qed

lemma sample_trim: "trim '' bad-id '' = ''bad-id''"
  by (simp add: trim_def is_js_whitespace_def)

lemma bad_id_invalid: "\<not> ObjectId_isValid ''bad-id''"
  by (simp add: ObjectId_isValid_def)

lemma quiet_bad_id:
  "delete_parcels_id quiet_world (initial docs) (by_path '' bad-id '') =
     (invalid_id cors_any (JString ''bad-id''), snd (connectToDatabase quiet_world (initial docs)))"
  using handle_delete_unfold [of quiet_world "initial docs" _ _ "by_path '' bad-id ''" "'' bad-id ''"]
  by (simp add: quiet_connect raw_by_path sample_trim bad_id_invalid route_delete)

theorem delete_trims_identifier_witness:
  "raw_parcelId (by_path ''bad-id'') = Some ''bad-id'' \<and>
   raw_parcelId (by_path '' bad-id '') = Some ('' '' @ ''bad-id'' @ '' '') \<and>
   list_all is_js_whitespace '' '' \<and>
   delete_parcels_id quiet_world (initial []) (by_path ''bad-id'') =
     delete_parcels_id quiet_world (initial []) (by_path '' bad-id '') \<and>
   status (fst (delete_parcels_id quiet_world (initial []) (by_path '' bad-id ''))) = 400 \<and>
   body (fst (delete_parcels_id quiet_world (initial []) (by_path '' bad-id ''))) =
     Json [(''error'', JString ''Invalid parcel ID format''), (''receivedId'', JString ''bad-id'')]"
  using delete_trims_identifier
          [where ?r1.0 = "by_path ''bad-id''" and ?r2.0 = "by_path '' bad-id ''"
             and x = "''bad-id''" and a = "'' ''" and b = "'' ''" and w = quiet_world
             and s = "initial []" and r = "by_path '' bad-id ''"]
        delete_trims_identifier
          [where r = "by_path '' bad-id ''" and x = "'' bad-id ''" and w = quiet_world
             and s = "initial []"]
  by (simp add: raw_by_path quiet_bad_id invalid_id_def is_js_whitespace_def sample_trim)


lemma delete_valid_quiet:
  assumes "connectToDatabase w s = (Inr h, s1)" and "\<forall>k<3. store_error w k = None"
    and "raw_parcelId req = Some raw" and "ObjectId_isValid (trim raw)"
  shows "((\<exists>p\<in>set (parcels s). names_parcel (trim raw) p) \<longrightarrow>
           (\<exists>d\<in>set (parcels s). \<exists>rest. names_parcel (trim raw) d \<and>
              delete_parcels_id w s req = (deleted (trim raw) 1, s1\<lparr>parcels := rest\<rparr>) \<and>
              mset (parcels s) = add_mset d (mset rest))) \<and>
         ((\<forall>p\<in>set (parcels s). \<not> names_parcel (trim raw) p) \<longrightarrow>
           status (fst (delete_parcels_id w s req)) = 404 \<and>
           snd (delete_parcels_id w s req) = s1)"
proof -
  have docs: "parcels s1 = parcels s"
    using assms(1) by (rule connect_Inr_parcels)
  have u: "handleDeleteParcelById w s req =
        (case delete_strategies w (trim raw) (parcels s) of
           (Inl e, docs) \<Rightarrow> (Inl e, s1\<lparr>parcels := docs\<rparr>)
         | (Inr n, docs) \<Rightarrow>
             if n = 0 then
               (Inr \<lparr>status = 404, headers = json_type @ cors_any,
                     body = Json [(''error'', JString ''Parcel not found''),
                                  (''parcelId'', JString (trim raw)),
                                  (''hint'', JString delete_hint)]\<rparr>,
                s1\<lparr>parcels := docs\<rparr>)
             else (Inr (deleted (trim raw) n), s1\<lparr>parcels := docs\<rparr>))"
    using handle_delete_unfold [OF assms(1) assms(3)] assms(4) valid_not_empty [OF assms(4)]
    by (simp add: docs)
  show ?thesis
  proof (intro conjI impI)
    assume "\<exists>p\<in>set (parcels s). names_parcel (trim raw) p"
    from delete_strategies_some [OF assms(2) this] obtain d rest where
      "d \<in> set (parcels s)" "names_parcel (trim raw) d"
      "delete_strategies w (trim raw) (parcels s) = (Inr 1, rest)"
      "mset (parcels s) = add_mset d (mset rest)" by blast
    then show "\<exists>d\<in>set (parcels s). \<exists>rest. names_parcel (trim raw) d \<and>
              delete_parcels_id w s req = (deleted (trim raw) 1, s1\<lparr>parcels := rest\<rparr>) \<and>
              mset (parcels s) = add_mset d (mset rest)"
      by (auto simp: route_delete u)
  next
    assume "\<forall>p\<in>set (parcels s). \<not> names_parcel (trim raw) p"
    from delete_strategies_none [OF assms(2) this]
    have n: "delete_strategies w (trim raw) (parcels s) = (Inr 0, parcels s)" .
    show "status (fst (delete_parcels_id w s req)) = 404"
      by (simp add: route_delete u n)
    have "s1\<lparr>parcels := parcels s\<rparr> = s1" using docs by simp
    then show "snd (delete_parcels_id w s req) = s1"
      by (simp add: route_delete u n)
  qed
qed


lemma sample_valid: "ObjectId_isValid ''507f1f77bcf86cd799439011''"
  by (simp add: ObjectId_isValid_def is_hex_digit_def)





lemma delete_invalid:
  assumes "connectToDatabase w s = (Inr h, s1)" and "raw_parcelId req = Some raw"
    and "trim raw = [] \<or> \<not> ObjectId_isValid (trim raw)"
  shows "delete_parcels_id w s req = (invalid_id cors_any (JString (trim raw)), s1)"
  using handle_delete_unfold [OF assms(1) assms(2)] assms(3) by (auto simp: route_delete)

lemma delete_undefined:
  assumes "connectToDatabase w s = (Inr h, s1)" and "raw_parcelId req = None"
  shows "delete_parcels_id w s req = (invalid_id cors_any JUndefined, s1)"
  using handle_delete_undefined [OF assms] by (simp add: route_delete)

text \<open>
  C1 (as amended). Once the connection is acquired, the path delete handler answers 400,
  without any call on the collection, when the identifier is undefined or when the trimmed
  identifier is empty or fails the locator format, even if a record carries it in its
  locator field or its \<^verbatim>\<open>id\<close> field. The string-locator and \<^verbatim>\<open>id\<close>-field strategies are
  tried only for a well-formed identifier; for such an identifier, when no store call
  throws, the answer is 404 exactly when no record is named under any of the three
  strategies, and 200 exactly when one is.
\<close>

theorem delete_validates_first:
  assumes "connectToDatabase w s = (Inr h, s1)"
  shows "(raw_parcelId req = None \<longrightarrow>
            delete_parcels_id w s req = (invalid_id cors_any JUndefined, s1)) \<and>
         (raw_parcelId req = Some raw \<and> (trim raw = [] \<or> \<not> ObjectId_isValid (trim raw)) \<longrightarrow>
            delete_parcels_id w s req = (invalid_id cors_any (JString (trim raw)), s1) \<and>
            parcels s1 = parcels s) \<and>
         status (invalid_id cors_any v) = 400 \<and>
         (raw_parcelId req = Some raw \<and> ObjectId_isValid (trim raw) \<and>
          (\<forall>k<3. store_error w k = None) \<longrightarrow>
            (status (fst (delete_parcels_id w s req)) = 404 \<longleftrightarrow>
               (\<forall>p\<in>set (parcels s). \<not> names_parcel (trim raw) p)) \<and>
            (status (fst (delete_parcels_id w s req)) = 200 \<longleftrightarrow>
               (\<exists>p\<in>set (parcels s). names_parcel (trim raw) p)))"
proof (intro conjI impI)
  assume "raw_parcelId req = None"
  then show "delete_parcels_id w s req = (invalid_id cors_any JUndefined, s1)"
    using assms by (intro delete_undefined)
next
  assume a: "raw_parcelId req = Some raw \<and> (trim raw = [] \<or> \<not> ObjectId_isValid (trim raw))"
  then show "delete_parcels_id w s req = (invalid_id cors_any (JString (trim raw)), s1)"
    using assms by (intro delete_invalid) simp_all
  show "parcels s1 = parcels s"
    using assms by (rule connect_Inr_parcels)
next
  show "status (invalid_id cors_any v) = 400"
    by (simp add: invalid_id_def)
next
  assume a: "raw_parcelId req = Some raw \<and> ObjectId_isValid (trim raw) \<and>
          (\<forall>k<3. store_error w k = None)"
  then have main:
    "((\<exists>p\<in>set (parcels s). names_parcel (trim raw) p) \<longrightarrow>
           (\<exists>d\<in>set (parcels s). \<exists>rest. names_parcel (trim raw) d \<and>
              delete_parcels_id w s req = (deleted (trim raw) 1, s1\<lparr>parcels := rest\<rparr>) \<and>
              mset (parcels s) = add_mset d (mset rest))) \<and>
     ((\<forall>p\<in>set (parcels s). \<not> names_parcel (trim raw) p) \<longrightarrow>
           status (fst (delete_parcels_id w s req)) = 404 \<and>
           snd (delete_parcels_id w s req) = s1)"
    using delete_valid_quiet [OF assms, of req raw] by blast
  have st: "status (fst (delete_parcels_id w s req)) =
              (if \<exists>p\<in>set (parcels s). names_parcel (trim raw) p then 200 else 404)"
  proof (cases "\<exists>p\<in>set (parcels s). names_parcel (trim raw) p")
    case True
    with main obtain rest where
      "delete_parcels_id w s req = (deleted (trim raw) 1, s1\<lparr>parcels := rest\<rparr>)" by blast
    with True show ?thesis by (simp add: deleted_def)
  next
    case False
    with main show ?thesis by simp
  qed
  show "status (fst (delete_parcels_id w s req)) = 404 \<longleftrightarrow>
               (\<forall>p\<in>set (parcels s). \<not> names_parcel (trim raw) p)"
    by (simp add: st)
  show "status (fst (delete_parcels_id w s req)) = 200 \<longleftrightarrow>
               (\<exists>p\<in>set (parcels s). names_parcel (trim raw) p)"
    by (simp add: st)
qed

lemma not_valid_sample: "\<not> ObjectId_isValid ''not-a-valid-id''"
  by (simp add: ObjectId_isValid_def)

lemma trim_sample: "trim ''not-a-valid-id'' = ''not-a-valid-id''"
  by (simp add: trim_def is_js_whitespace_def)

theorem delete_validates_first_witness:
  "raw_parcelId (by_path ''not-a-valid-id'') = Some ''not-a-valid-id'' \<and>
   \<not> ObjectId_isValid (trim ''not-a-valid-id'') \<and>
   fst (delete_parcels_id quiet_world (initial [parcel_legacy]) (by_path ''not-a-valid-id'')) =
     invalid_id cors_any (JString ''not-a-valid-id'') \<and>
   raw_parcelId \<lparr>params_id = None, path = None\<rparr> = None \<and>
   fst (delete_parcels_id quiet_world (initial []) \<lparr>params_id = None, path = None\<rparr>) =
     invalid_id cors_any JUndefined \<and>
   raw_parcelId (by_path ''507f1f77bcf86cd799439011'') = Some ''507f1f77bcf86cd799439011'' \<and>
   ObjectId_isValid (trim ''507f1f77bcf86cd799439011'') \<and>
   store_error quiet_world 0 = None \<and> store_error quiet_world 1 = None \<and>
   store_error quiet_world 2 = None \<and>
   status (fst (delete_parcels_id quiet_world (initial [parcel_legacy])
                  (by_path ''507f1f77bcf86cd799439011''))) = 404"
proof -
  have t: "trim ''507f1f77bcf86cd799439011'' = ''507f1f77bcf86cd799439011''"
    by (simp add: trim_def is_js_whitespace_def)
  have n: "\<not> names_parcel ''507f1f77bcf86cd799439011'' parcel_legacy"
    by (simp add: names_parcel_def parcel_legacy_def)
  have r0: "raw_parcelId \<lparr>params_id = None, path = None\<rparr> = None"
    by (simp add: raw_parcelId_def)
  have r1: "raw_parcelId (by_path ''not-a-valid-id'') = Some ''not-a-valid-id''"
    and r2: "raw_parcelId (by_path ''507f1f77bcf86cd799439011'') =
               Some ''507f1f77bcf86cd799439011''"
    by (simp_all add: raw_by_path)
  have c1: "fst (delete_parcels_id quiet_world (initial [parcel_legacy])
                  (by_path ''not-a-valid-id'')) =
              invalid_id cors_any (JString ''not-a-valid-id'')"
    using delete_validates_first
            [OF quiet_connect, of "by_path ''not-a-valid-id''" "[parcel_legacy]"
               "''not-a-valid-id''"]
      r1 not_valid_sample
    by (simp add: trim_sample)
  have c2: "fst (delete_parcels_id quiet_world (initial []) \<lparr>params_id = None, path = None\<rparr>) =
              invalid_id cors_any JUndefined"
    using delete_validates_first
            [OF quiet_connect, of "\<lparr>params_id = None, path = None\<rparr>" "[]"] r0
    by simp
  have c3: "status (fst (delete_parcels_id quiet_world (initial [parcel_legacy])
                  (by_path ''507f1f77bcf86cd799439011''))) = 404"
    using delete_validates_first
            [OF quiet_connect, of "by_path ''507f1f77bcf86cd799439011''" "[parcel_legacy]"
               "''507f1f77bcf86cd799439011''"]
      r2 sample_valid n quiet_three(4)
    by (simp add: t parcels_initial)
  have v1: "\<not> ObjectId_isValid (trim ''not-a-valid-id'')"
    by (simp add: trim_sample not_valid_sample)
  have v2: "ObjectId_isValid (trim ''507f1f77bcf86cd799439011'')"
    by (simp add: t sample_valid)
  show ?thesis
    using r1 v1 c1 r0 c2 r2 v2 quiet_three(1,2,3) c3 by blast
qed

text \<open>
  The claim fails at the identifier \<open>not-a-valid-id\<close>: on an empty collection, where no
  strategy can match, the answer is 400 rather than 404; and a record that carries the
  identifier in its \<^verbatim>\<open>id\<close> field is not looked for, the answer is 400 and the record stays.
\<close>

theorem delete_invalid_identifier_counterexample:
  "\<not> ObjectId_isValid ''not-a-valid-id'' \<and>
   status (fst (delete_parcels_id quiet_world (initial []) (by_path ''not-a-valid-id''))) = 400 \<and>
   names_parcel ''not-a-valid-id'' parcel_legacy \<and>
   status (fst (delete_parcels_id quiet_world (initial [parcel_legacy])
                  (by_path ''not-a-valid-id''))) = 400 \<and>
   parcels (snd (delete_parcels_id quiet_world (initial [parcel_legacy])
                  (by_path ''not-a-valid-id''))) = [parcel_legacy]"
  using delete_invalid [OF quiet_connect, of "by_path ''not-a-valid-id''" "''not-a-valid-id''"]
  by (simp add: raw_by_path trim_sample not_valid_sample invalid_id_def names_parcel_def
        parcel_legacy_def)

text \<open>
  C5 (as amended). Once the connection is acquired, a path delete request whose
  identifier, trimmed of surrounding white space, is empty or not a well-formed locator is
  answered 400 with \<^verbatim>\<open>receivedId\<close> equal to the trimmed identifier; that is the literal
  identifier whenever it has no surrounding white space.
\<close>

theorem delete_invalid_echoes_trimmed:
  assumes "connectToDatabase w s = (Inr h, s1)" and "raw_parcelId req = Some raw"
    and "trim raw = [] \<or> \<not> ObjectId_isValid (trim raw)"
  shows "status (fst (delete_parcels_id w s req)) = 400 \<and>
         body (fst (delete_parcels_id w s req)) =
           Json [(''error'', JString ''Invalid parcel ID format''),
                 (''receivedId'', JString (trim raw))] \<and>
         (trim raw = raw \<longrightarrow>
            body (fst (delete_parcels_id w s req)) =
              Json [(''error'', JString ''Invalid parcel ID format''),
                    (''receivedId'', JString raw)])"
  using delete_invalid [OF assms] by (simp add: invalid_id_def)

theorem delete_invalid_echoes_trimmed_witness:
  "raw_parcelId (by_path ''not-a-valid-id'') = Some ''not-a-valid-id'' \<and>
   trim ''not-a-valid-id'' = ''not-a-valid-id'' \<and>
   \<not> ObjectId_isValid (trim ''not-a-valid-id'') \<and>
   status (fst (delete_parcels_id quiet_world (initial []) (by_path ''not-a-valid-id''))) = 400 \<and>
   body (fst (delete_parcels_id quiet_world (initial []) (by_path ''not-a-valid-id''))) =
     Json [(''error'', JString ''Invalid parcel ID format''),
           (''receivedId'', JString ''not-a-valid-id'')]"
proof -
  have r: "raw_parcelId (by_path ''not-a-valid-id'') = Some ''not-a-valid-id''"
    by (simp add: raw_by_path)
  have v: "trim ''not-a-valid-id'' = [] \<or> \<not> ObjectId_isValid (trim ''not-a-valid-id'')"
    by (simp add: trim_sample not_valid_sample)
  show ?thesis
    using delete_invalid_echoes_trimmed [OF quiet_connect r v, of "[]"] r
    by (simp add: trim_sample not_valid_sample)
qed

text \<open>
  The claim fails for identifiers with surrounding white space: for \<open>bad-id\<close> between two
  spaces the answer carries \<^verbatim>\<open>receivedId\<close> \<open>bad-id\<close>, not the literal input; and a well-formed
  locator between two spaces, itself no well-formed locator, is answered 404, not 400.
\<close>

theorem delete_received_id_counterexample:
  "\<not> ObjectId_isValid '' bad-id '' \<and>
   body (fst (delete_parcels_id quiet_world (initial []) (by_path '' bad-id ''))) =
     Json [(''error'', JString ''Invalid parcel ID format''), (''receivedId'', JString ''bad-id'')] \<and>
   JString ''bad-id'' \<noteq> JString '' bad-id '' \<and>
   \<not> ObjectId_isValid '' 507f1f77bcf86cd799439011 '' \<and>
   status (fst (delete_parcels_id quiet_world (initial [])
                  (by_path '' 507f1f77bcf86cd799439011 ''))) = 404"
proof -
  have t: "trim '' 507f1f77bcf86cd799439011 '' = ''507f1f77bcf86cd799439011''"
    by (simp add: trim_def is_js_whitespace_def)
  have r: "raw_parcelId (by_path '' 507f1f77bcf86cd799439011 '') =
             Some '' 507f1f77bcf86cd799439011 ''"
    by (simp add: raw_by_path)
  have q: "\<forall>k<3. store_error quiet_world k = None"
    by (simp add: quiet_fields)
  have v: "ObjectId_isValid (trim '' 507f1f77bcf86cd799439011 '')"
    by (simp add: t sample_valid)
  have "status (fst (delete_parcels_id quiet_world (initial [])
                  (by_path '' 507f1f77bcf86cd799439011 ''))) = 404"
    using delete_valid_quiet [OF quiet_connect q r v, of "[]"] by (simp add: initial_def)
  then show ?thesis
    by (simp add: quiet_bad_id invalid_id_def ObjectId_isValid_def)
qed

section \<open>Properties of fetching one parcel\<close>

lemma find_native:
  "find (matches rx (FieldEq ''_id'' (new_ObjectId i))) docs =
   find (\<lambda>p. parcel_id p = NativeId (map to_lower i)) docs"
  by (induction docs) (simp_all add: field_native)

lemma get_by_id_unfold:
  assumes "connectToDatabase w s = (Inr h, s1)"
  shows "get_parcels_id w s i =
     (if \<not> ObjectId_isValid i then
        (\<lparr>status = 400, headers = [],
          body = Json [(''error'', JString ''Invalid parcel ID format''),
                       (''receivedId'', JString i)]\<rparr>, s1)
      else
        (case store_error w 0 of
           Some m \<Rightarrow> (failure ''Failed to fetch parcel'' [] m, s1)
         | None \<Rightarrow>
             (case find (\<lambda>p. parcel_id p = NativeId (map to_lower i)) (parcels s) of
                None \<Rightarrow>
                  (\<lparr>status = 404, headers = [],
                    body = Json [(''error'', JString ''Parcel not found''),
                                 (''parcelId'', JString i)]\<rparr>, s1)
              | Some p \<Rightarrow>
                  (\<lparr>status = 200, headers = json_type, body = JsonDoc (serialise p)\<rparr>, s1))))"
  using assms connect_Inr_parcels [OF assms]
  by (simp add: get_parcels_id_def findOne_def find_native split: option.splits)






section \<open>Properties of the error answers\<close>

lemma missing_credentials_throw:
  assumes "\<not> credentials_set w" and "cached s = None \<or> ping_error w \<noteq> None"
  shows "fst (connectToDatabase w s) =
           Inl (Error ''DB_USER and DB_PASSWORD environment variables are required'')"
  using assms
  by (auto simp: connectToDatabase_def open_connection_def credentials_set_def cached_def
           split: option.splits if_splits)

lemma failed_connect_throws:
  assumes "credentials_set w" and "connect_error w = Some m"
    and "cached s = None \<or> ping_error w \<noteq> None"
  shows "fst (connectToDatabase w s) = Inl (Error m)"
  using assms
  by (auto simp: connectToDatabase_def open_connection_def credentials_set_def cached_def Let_def
           split: option.splits if_splits)

lemma handlers_forward_connect_error:
  assumes "fst (connectToDatabase w s) = Inl (Error m)"
  shows "fst (get_parcels w s email) = failure ''Failed to fetch parcels'' [] m"
    and "fst (get_parcels_user w s addr) = failure ''Failed to fetch parcels'' [] m"
    and "fst (get_parcels_id w s i) = failure ''Failed to fetch parcel'' [] m"
    and "fst (post_parcels w s given a) = failure ''Failed to insert parcel'' [] m"
    and "fst (delete_parcels_id w s req) = failure ''Failed to delete parcel'' cors_any m"
    and "fst (delete_api_parcels_id w s req) = failure ''Failed to delete parcel'' cors_any m"
    and "fst (delete_parcels w s breq) = failure ''Failed to delete parcel'' cors_any m"
proof -
  obtain s1 where c: "connectToDatabase w s = (Inl (Error m), s1)"
    using assms by (cases "connectToDatabase w s") simp
  show "fst (get_parcels w s email) = failure ''Failed to fetch parcels'' [] m"
    by (simp add: get_parcels_def c)
  show "fst (get_parcels_user w s addr) = failure ''Failed to fetch parcels'' [] m"
    by (simp add: get_parcels_user_def c)
  show "fst (get_parcels_id w s i) = failure ''Failed to fetch parcel'' [] m"
    by (simp add: get_parcels_id_def c)
  show "fst (post_parcels w s given a) = failure ''Failed to insert parcel'' [] m"
    by (simp add: post_parcels_def c)
  show "fst (delete_parcels_id w s req) = failure ''Failed to delete parcel'' cors_any m"
    by (simp add: route_delete handleDeleteParcelById_def c)
  then show "fst (delete_api_parcels_id w s req) = failure ''Failed to delete parcel'' cors_any m"
    by (simp add: route_delete)
  show "fst (delete_parcels w s breq) = failure ''Failed to delete parcel'' cors_any m"
    by (simp add: delete_parcels_def c)
qed

lemma handlers_forward_store_error:
  assumes "fst (connectToDatabase w s) = Inr h" and "store_error w 0 = Some m"
  shows "fst (get_parcels w s email) = failure ''Failed to fetch parcels'' [] m"
    and "fst (get_parcels_user w s addr) = failure ''Failed to fetch parcels'' [] m"
    and "ObjectId_isValid i \<longrightarrow> fst (get_parcels_id w s i) = failure ''Failed to fetch parcel'' [] m"
    and "fst (post_parcels w s given a) = failure ''Failed to insert parcel'' [] m"
    and "raw_parcelId req = Some raw \<and> ObjectId_isValid (trim raw) \<longrightarrow>
           fst (delete_parcels_id w s req) = failure ''Failed to delete parcel'' cors_any m"
proof -
  obtain s1 where c: "connectToDatabase w s = (Inr h, s1)"
    using assms(1) by (cases "connectToDatabase w s") simp
  show "fst (get_parcels w s email) = failure ''Failed to fetch parcels'' [] m"
    by (simp add: get_parcels_def c find_sorted_def assms(2))
  show "fst (get_parcels_user w s addr) = failure ''Failed to fetch parcels'' [] m"
    by (simp add: get_parcels_user_def c find_sorted_def assms(2))
  show "ObjectId_isValid i \<longrightarrow> fst (get_parcels_id w s i) = failure ''Failed to fetch parcel'' [] m"
    by (simp add: get_by_id_unfold [OF c] assms(2))
  show "fst (post_parcels w s given a) = failure ''Failed to insert parcel'' [] m"
    by (simp add: post_parcels_def c insertOne_def assms(2))
  show "raw_parcelId req = Some raw \<and> ObjectId_isValid (trim raw) \<longrightarrow>
           fst (delete_parcels_id w s req) = failure ''Failed to delete parcel'' cors_any m"
  proof
    assume a: "raw_parcelId req = Some raw \<and> ObjectId_isValid (trim raw)"
    then have "trim raw \<noteq> []" by (simp add: valid_not_empty)
    with a show "fst (delete_parcels_id w s req) = failure ''Failed to delete parcel'' cors_any m"
      using handle_delete_unfold [OF c, of req raw]
      by (simp add: route_delete delete_strategies_def deleteOne_def assms(2))
  qed
qed

lemma standalone_without_credentials:
  "\<not> credentials_set w \<Longrightarrow> run w t = t"
  by (simp add: run_def credentials_set_def)

lemma encoded_head:
  assumes "u \<noteq> []"
  shows "\<exists>c cs. encodeURIComponent u = c # cs \<and> c \<noteq> CHR '':'' \<and> c \<noteq> CHR ''@''"
proof (cases u)
  case Nil
  with assms show ?thesis by simp
next
  case (Cons a as)
  show ?thesis
  proof (cases "uri_unreserved a")
    case True
    then have "a \<noteq> CHR '':'' \<and> a \<noteq> CHR ''@''"
      by (auto simp: uri_unreserved_def)
    with True Cons show ?thesis by (simp add: encodeURIComponent_def)
  next
    case False
    with Cons show ?thesis by (simp add: encodeURIComponent_def percent_def)
  qed
qed

lemma userinfo_of_uri:
  "userinfo_empty (mongo_uri (encodeURIComponent u) p) \<longleftrightarrow> u = []"
proof (cases "u = []")
  case True
  then show ?thesis
    by (simp add: userinfo_empty_def mongo_uri_def encodeURIComponent_def)
next
  case False
  then obtain c cs where "encodeURIComponent u = c # cs" "c \<noteq> CHR '':''" "c \<noteq> CHR ''@''"
    using encoded_head by blast
  with False show ?thesis
    by (simp add: userinfo_empty_def mongo_uri_def)
qed

lemma load_without_user: "env_missing (DB_USER w) \<Longrightarrow> load w docs = None"
  by (auto simp: load_def env_missing_def env_or_empty_def userinfo_of_uri Let_def)

lemma load_with_user:
  "\<not> env_missing (DB_USER w) \<Longrightarrow>
   \<exists>cl. load w docs = Some \<lparr>client = cl, db = None, parcelsCollection = None, stored = docs\<rparr>"
  by (auto simp: load_def env_missing_def env_or_empty_def userinfo_of_uri Let_def
           split: option.splits)

lemma start_without_user: "env_missing (DB_USER w) \<Longrightarrow> start w docs = None"
  by (simp add: start_def load_without_user)

lemma start_without_password:
  assumes "\<not> env_missing (DB_USER w)" and "env_missing (DB_PASSWORD w)"
  shows "\<exists>t. start w docs = Some t \<and> parcelsCollection t = None"
proof -
  obtain cl where
    "load w docs = Some \<lparr>client = cl, db = None, parcelsCollection = None, stored = docs\<rparr>"
    using load_with_user [OF assms(1)] by blast
  then show ?thesis
    using assms(2) by (simp add: start_def run_def)
qed

lemma start_without_connection:
  assumes "credentials_set w" and "connect_error w = Some m"
  shows "\<exists>t. start w docs = Some t \<and> parcelsCollection t = None"
proof -
  have "\<not> env_missing (DB_USER w)"
    using assms(1) by (simp add: credentials_set_def)
  then obtain cl where
    "load w docs = Some \<lparr>client = cl, db = None, parcelsCollection = None, stored = docs\<rparr>"
    using load_with_user by blast
  then show ?thesis
    using assms by (simp add: start_def run_def credentials_set_def)
qed

lemma standalone_not_connected:
  "parcelsCollection t = None \<Longrightarrow> standalone_get_parcels w t email = (not_connected, t)"
  by (simp add: standalone_get_parcels_def)


lemma health_without_credentials:
  "\<not> credentials_set w \<Longrightarrow>
   health w s now =
     (health_body ''disconnected'' False
        (JString ''DB_USER or DB_PASSWORD environment variables not set'') now, s)"
  by (auto simp: health_def credentials_set_def Let_def)

text \<open>
  C6 (as amended). In the serverless variant, an operation on the store that is invoked
  while a credential is absent or empty, and that does not reuse a live cached connection,
  fails in \<^verbatim>\<open>connectToDatabase\<close> with the message that both variables are required, and
  every handler (list, list by user, fetch, insert, the three deletes) answers 500 with that
  message forwarded, not 503. A failed connect, and a store call that throws, are
  answered 500 with the underlying message forwarded as well. The answer 503 with
  \<^verbatim>\<open>Database not connected\<close> is the standalone variant's, given whenever its collection
  handle is unset: its start-up leaves the handle unset when the user name is there and the
  password is missing, and when the start-up connect fails. With the user name missing the
  standalone server does not start at all. The health check answers 200 and reports
  missing credentials in its body.
\<close>

theorem missing_credentials_answers:
  "(\<not> credentials_set w \<and> (cached s = None \<or> ping_error w \<noteq> None) \<longrightarrow>
      fst (get_parcels w s email) =
        failure ''Failed to fetch parcels'' []
          ''DB_USER and DB_PASSWORD environment variables are required'' \<and>
      fst (get_parcels_user w s addr) =
        failure ''Failed to fetch parcels'' []
          ''DB_USER and DB_PASSWORD environment variables are required'' \<and>
      fst (get_parcels_id w s i) =
        failure ''Failed to fetch parcel'' []
          ''DB_USER and DB_PASSWORD environment variables are required'' \<and>
      fst (post_parcels w s given a) =
        failure ''Failed to insert parcel'' []
          ''DB_USER and DB_PASSWORD environment variables are required'' \<and>
      fst (delete_parcels_id w s req) =
        failure ''Failed to delete parcel'' cors_any
          ''DB_USER and DB_PASSWORD environment variables are required'' \<and>
      fst (delete_api_parcels_id w s req) =
        failure ''Failed to delete parcel'' cors_any
          ''DB_USER and DB_PASSWORD environment variables are required'' \<and>
      fst (delete_parcels w s breq) =
        failure ''Failed to delete parcel'' cors_any
          ''DB_USER and DB_PASSWORD environment variables are required'') \<and>
   (credentials_set w \<and> connect_error w = Some m \<and>
    (cached s = None \<or> ping_error w \<noteq> None) \<longrightarrow>
      fst (get_parcels w s email) = failure ''Failed to fetch parcels'' [] m \<and>
      fst (get_parcels_user w s addr) = failure ''Failed to fetch parcels'' [] m \<and>
      fst (get_parcels_id w s i) = failure ''Failed to fetch parcel'' [] m \<and>
      fst (post_parcels w s given a) = failure ''Failed to insert parcel'' [] m \<and>
      fst (delete_parcels_id w s req) = failure ''Failed to delete parcel'' cors_any m \<and>
      fst (delete_api_parcels_id w s req) = failure ''Failed to delete parcel'' cors_any m \<and>
      fst (delete_parcels w s breq) = failure ''Failed to delete parcel'' cors_any m) \<and>
   (fst (connectToDatabase w s) = Inr h \<and> store_error w 0 = Some m \<longrightarrow>
      fst (get_parcels w s email) = failure ''Failed to fetch parcels'' [] m \<and>
      fst (get_parcels_user w s addr) = failure ''Failed to fetch parcels'' [] m \<and>
      (ObjectId_isValid i \<longrightarrow>
         fst (get_parcels_id w s i) = failure ''Failed to fetch parcel'' [] m) \<and>
      fst (post_parcels w s given a) = failure ''Failed to insert parcel'' [] m \<and>
      (raw_parcelId req = Some raw \<and> ObjectId_isValid (trim raw) \<longrightarrow>
         fst (delete_parcels_id w s req) = failure ''Failed to delete parcel'' cors_any m)) \<and>
   status (failure what hs m) = 500 \<and>
   body (failure what hs m) = Json [(''error'', JString what), (''message'', JString m)] \<and>
   (env_missing (DB_USER w) \<longrightarrow> start w docs = None) \<and>
   (\<not> env_missing (DB_USER w) \<and> env_missing (DB_PASSWORD w) \<longrightarrow>
      (\<exists>t0. start w docs = Some t0 \<and> parcelsCollection t0 = None \<and>
            standalone_get_parcels w t0 email = (not_connected, t0))) \<and>
   (credentials_set w \<and> connect_error w = Some m \<longrightarrow>
      (\<exists>t0. start w docs = Some t0 \<and> parcelsCollection t0 = None \<and>
            standalone_get_parcels w t0 email = (not_connected, t0))) \<and>
   (parcelsCollection t = None \<longrightarrow> standalone_get_parcels w t email = (not_connected, t)) \<and>
   status not_connected = 503 \<and>
   body not_connected = Json [(''error'', JString ''Database not connected'')] \<and>
   (\<not> credentials_set w \<longrightarrow>
      fst (health w s now) =
        health_body ''disconnected'' False
          (JString ''DB_USER or DB_PASSWORD environment variables not set'') now) \<and>
   status (health_body dbStatus hasEnvVars dbError now) = 200"
proof (intro conjI impI)
  assume a: "\<not> credentials_set w \<and> (cached s = None \<or> ping_error w \<noteq> None)"
  then have c: "fst (connectToDatabase w s) =
      Inl (Error ''DB_USER and DB_PASSWORD environment variables are required'')"
    using missing_credentials_throw by blast
  note f = handlers_forward_connect_error [OF c]
  show "fst (get_parcels w s email) =
        failure ''Failed to fetch parcels'' []
          ''DB_USER and DB_PASSWORD environment variables are required''" by (rule f)
  show "fst (get_parcels_user w s addr) =
        failure ''Failed to fetch parcels'' []
          ''DB_USER and DB_PASSWORD environment variables are required''" by (rule f)
  show "fst (get_parcels_id w s i) =
        failure ''Failed to fetch parcel'' []
          ''DB_USER and DB_PASSWORD environment variables are required''" by (rule f)
  show "fst (post_parcels w s given a) =
        failure ''Failed to insert parcel'' []
          ''DB_USER and DB_PASSWORD environment variables are required''" by (rule f)
  show "fst (delete_parcels_id w s req) =
        failure ''Failed to delete parcel'' cors_any
          ''DB_USER and DB_PASSWORD environment variables are required''" by (rule f)
  show "fst (delete_api_parcels_id w s req) =
        failure ''Failed to delete parcel'' cors_any
          ''DB_USER and DB_PASSWORD environment variables are required''" by (rule f)
  show "fst (delete_parcels w s breq) =
        failure ''Failed to delete parcel'' cors_any
          ''DB_USER and DB_PASSWORD environment variables are required''" by (rule f)
next
  assume a: "credentials_set w \<and> connect_error w = Some m \<and>
    (cached s = None \<or> ping_error w \<noteq> None)"
  then have c: "fst (connectToDatabase w s) = Inl (Error m)"
    using failed_connect_throws by blast
  note f = handlers_forward_connect_error [OF c]
  show "fst (get_parcels w s email) = failure ''Failed to fetch parcels'' [] m" by (rule f)
  show "fst (get_parcels_user w s addr) = failure ''Failed to fetch parcels'' [] m" by (rule f)
  show "fst (get_parcels_id w s i) = failure ''Failed to fetch parcel'' [] m" by (rule f)
  show "fst (post_parcels w s given a) = failure ''Failed to insert parcel'' [] m" by (rule f)
  show "fst (delete_parcels_id w s req) = failure ''Failed to delete parcel'' cors_any m"
    by (rule f)
  show "fst (delete_api_parcels_id w s req) = failure ''Failed to delete parcel'' cors_any m"
    by (rule f)
  show "fst (delete_parcels w s breq) = failure ''Failed to delete parcel'' cors_any m"
    by (rule f)
next
  assume a: "fst (connectToDatabase w s) = Inr h \<and> store_error w 0 = Some m"
  then have c: "fst (connectToDatabase w s) = Inr h" and e: "store_error w 0 = Some m"
    by simp_all
  note f = handlers_forward_store_error [OF c e]
  show "fst (get_parcels w s email) = failure ''Failed to fetch parcels'' [] m" by (rule f)
  show "fst (get_parcels_user w s addr) = failure ''Failed to fetch parcels'' [] m" by (rule f)
  show "fst (post_parcels w s given a) = failure ''Failed to insert parcel'' [] m" by (rule f)
  assume "ObjectId_isValid i"
  then show "fst (get_parcels_id w s i) = failure ''Failed to fetch parcel'' [] m"
    using f(3) by blast
next
  assume a: "fst (connectToDatabase w s) = Inr h \<and> store_error w 0 = Some m"
    and b: "raw_parcelId req = Some raw \<and> ObjectId_isValid (trim raw)"
  from a have c: "fst (connectToDatabase w s) = Inr h" and e: "store_error w 0 = Some m"
    by simp_all
  show "fst (delete_parcels_id w s req) = failure ''Failed to delete parcel'' cors_any m"
    using handlers_forward_store_error(5) [OF c e] b by blast
next
  show "status (failure what hs m) = 500"
    by (simp add: failure_def)
  show "body (failure what hs m) = Json [(''error'', JString what), (''message'', JString m)]"
    by (simp add: failure_def)
  show "status not_connected = 503"
    by (simp add: not_connected_def)
  show "body not_connected = Json [(''error'', JString ''Database not connected'')]"
    by (simp add: not_connected_def)
  show "status (health_body dbStatus hasEnvVars dbError now) = 200"
    by (simp add: health_body_def)
next
  assume "env_missing (DB_USER w)"
  then show "start w docs = None" by (rule start_without_user)
next
  assume "\<not> env_missing (DB_USER w) \<and> env_missing (DB_PASSWORD w)"
  then obtain t0 where "start w docs = Some t0" "parcelsCollection t0 = None"
    using start_without_password by blast
  then show "\<exists>t0. start w docs = Some t0 \<and> parcelsCollection t0 = None \<and>
            standalone_get_parcels w t0 email = (not_connected, t0)"
    using standalone_not_connected by blast
next
  assume "credentials_set w \<and> connect_error w = Some m"
  then obtain t0 where "start w docs = Some t0" "parcelsCollection t0 = None"
    using start_without_connection by blast
  then show "\<exists>t0. start w docs = Some t0 \<and> parcelsCollection t0 = None \<and>
            standalone_get_parcels w t0 email = (not_connected, t0)"
    using standalone_not_connected by blast
next
  assume "parcelsCollection t = None"
  then show "standalone_get_parcels w t email = (not_connected, t)"
    by (rule standalone_not_connected)
next
  assume "\<not> credentials_set w"
  then show "fst (health w s now) =
        health_body ''disconnected'' False
          (JString ''DB_USER or DB_PASSWORD environment variables not set'') now"
    by (simp add: health_without_credentials)
qed


lemma bare_world_facts:
  "\<not> credentials_set bare_world" "cached (initial docs) = None"
  by (simp_all add: credentials_set_def bare_world_def quiet_world_def env_missing_def
        cached_def initial_def)

lemma unreachable_world_facts:
  "credentials_set unreachable_world"
  "connect_error unreachable_world = Some ''getaddrinfo ENOTFOUND''"
  by (simp_all add: credentials_set_def unreachable_world_def quiet_world_def env_missing_def)

lemma failing_world_facts:
  "fst (connectToDatabase failing_world (initial docs)) =
     Inr (handle_of (MongoClient 0 (mongo_uri ''zap'' ''p%40ss'')))"
  "store_error failing_world 0 = Some ''socket hang up''"
  by (simp_all add: connectToDatabase_def open_connection_def initial_def failing_world_def
        quiet_world_def env_missing_def sample_credentials
        handle_of_def Let_def)



lemma passwordless_world_facts:
  "\<not> env_missing (DB_USER passwordless_world)" "env_missing (DB_PASSWORD passwordless_world)"
  "env_missing (DB_USER bare_world)"
  by (simp_all add: passwordless_world_def bare_world_def quiet_world_def env_missing_def)

theorem missing_credentials_answers_witness:
  "\<not> credentials_set bare_world \<and> cached (initial []) = None \<and>
   status (fst (get_parcels bare_world (initial []) None)) = 500 \<and>
   credentials_set unreachable_world \<and>
   connect_error unreachable_world = Some ''getaddrinfo ENOTFOUND'' \<and>
   fst (get_parcels unreachable_world (initial []) None) =
     failure ''Failed to fetch parcels'' [] ''getaddrinfo ENOTFOUND'' \<and>
   store_error failing_world 0 = Some ''socket hang up'' \<and>
   ObjectId_isValid ''507f1f77bcf86cd799439011'' \<and>
   fst (get_parcels_id failing_world (initial []) ''507f1f77bcf86cd799439011'') =
     failure ''Failed to fetch parcel'' [] ''socket hang up'' \<and>
   env_missing (DB_USER bare_world) \<and> start bare_world [] = None \<and>
   \<not> env_missing (DB_USER passwordless_world) \<and>
   env_missing (DB_PASSWORD passwordless_world) \<and>
   parcelsCollection (the (start passwordless_world [])) = None \<and>
   status (fst (standalone_get_parcels passwordless_world
                  (the (start passwordless_world [])) None)) = 503 \<and>
   status (fst (standalone_get_parcels unreachable_world
                  (the (start unreachable_world [])) None)) = 503 \<and>
   status (fst (health bare_world (initial []) ''2026-01-01T00:00:00.000Z'')) = 200"
proof -
  note a = missing_credentials_answers
             [where w = bare_world and s = "initial []" and email = None and docs = "[]"
                and now = "''2026-01-01T00:00:00.000Z''"]
  note b = missing_credentials_answers
             [where w = unreachable_world and s = "initial []" and email = None
                and m = "''getaddrinfo ENOTFOUND''" and docs = "[]"]
  note c = missing_credentials_answers
             [where w = failing_world and s = "initial []"
                and h = "handle_of (MongoClient 0 (mongo_uri ''zap'' ''p%40ss''))"
                and m = "''socket hang up''" and i = "''507f1f77bcf86cd799439011''"]
  note d = missing_credentials_answers
             [where w = passwordless_world and email = None and docs = "[]"
                and t = "the (start passwordless_world [])"]
  have 1: "status (fst (get_parcels bare_world (initial []) None)) = 500"
    using a bare_world_facts(1) bare_world_facts(2) [of "[]"] by (simp add: failure_def)
  have 2: "fst (get_parcels unreachable_world (initial []) None) =
             failure ''Failed to fetch parcels'' [] ''getaddrinfo ENOTFOUND''"
    using b unreachable_world_facts bare_world_facts(2) [of "[]"] by simp
  have 3: "fst (get_parcels_id failing_world (initial []) ''507f1f77bcf86cd799439011'') =
             failure ''Failed to fetch parcel'' [] ''socket hang up''"
    using c failing_world_facts(1) [of "[]"] failing_world_facts(2) sample_valid by simp
  have 4: "start bare_world [] = None"
    using a passwordless_world_facts(3) by simp
  from d passwordless_world_facts(1,2) obtain t0 where
    t0: "start passwordless_world [] = Some t0" "parcelsCollection t0 = None"
    by blast
  have 5: "parcelsCollection (the (start passwordless_world [])) = None"
    using t0 by simp
  have 6: "status (fst (standalone_get_parcels passwordless_world
                  (the (start passwordless_world [])) None)) = 503"
    using d 5 by simp
  from b unreachable_world_facts obtain t1 where
    "start unreachable_world [] = Some t1"
    "standalone_get_parcels unreachable_world t1 None = (not_connected, t1)"
    by blast
  then have 7: "status (fst (standalone_get_parcels unreachable_world
                  (the (start unreachable_world [])) None)) = 503"
    by (simp add: not_connected_def)
  have 8: "status (fst (health bare_world (initial []) ''2026-01-01T00:00:00.000Z'')) = 200"
    using a bare_world_facts(1) by simp
  show ?thesis
    using 1 2 3 4 5 6 7 8 bare_world_facts(1) bare_world_facts(2) [of "[]"]
      unreachable_world_facts failing_world_facts(2) sample_valid passwordless_world_facts
    by blast
qed

text \<open>
  The claim fails in the serverless variant: with no credentials, listing is answered 500
  with the message of the missing variables, not 503.
\<close>

theorem missing_credentials_counterexample:
  "\<not> credentials_set bare_world \<and>
   status (fst (get_parcels bare_world (initial []) None)) = 500 \<and>
   body (fst (get_parcels bare_world (initial []) None)) =
     Json [(''error'', JString ''Failed to fetch parcels''),
           (''message'', JString ''DB_USER and DB_PASSWORD environment variables are required'')]"
proof -
  have "fst (connectToDatabase bare_world (initial [])) =
          Inl (Error ''DB_USER and DB_PASSWORD environment variables are required'')"
    using bare_world_facts(1) bare_world_facts(2) [of "[]"]
    by (intro missing_credentials_throw) simp_all
  then have "fst (get_parcels bare_world (initial []) None) =
               failure ''Failed to fetch parcels'' []
                 ''DB_USER and DB_PASSWORD environment variables are required''"
    by (rule handlers_forward_connect_error)
  then show ?thesis
    using bare_world_facts(1) by (simp add: failure_def)
qed

end
